theory Spec2Isabelle
  imports Main "HOL-Library.Sublist"
begin

section \<open>The helper functions of dbfs (\<^verbatim>\<open>source/helper.cpp\<close>)\<close>

text \<open>
  The file builds, once per configured SQL server, a directory in the dump directory with
  one empty placeholder file per DMV, and tags every placeholder with an extended
  attribute. The model is a shallow embedding with explicit state passing: the mutable part
  of the process and of the file system is the record \<open>state\<close>, and everything the
  functions only read (the globals the file does not define, the behaviour of the
  operating system and of the functions of the repository that live in other files) is the
  record \<open>env\<close>.
\<close>

subsection \<open>Data\<close>

text \<open>\<^verbatim>\<open>g_UserPaths\<close> and the values of \<^verbatim>\<open>g_ServerInfoMap\<close>; only the members this file reads.\<close>

record UserPaths =
  m_dumpPath :: string
  m_logfilePath :: string

record ServerInfo =
  m_hostname :: string
  m_username :: string
  m_password :: string
  m_customQueriesPath :: string

text \<open>
  A regular file of the model carries its bytes and its extended attributes. Permission
  bits are not modelled: a call that the real system would refuse is a fault of the
  environment (below).
\<close>

record regfile =
  content :: string
  xattrs :: "string \<rightharpoonup> string"

text \<open>
  What the process is doing: still executing statements, terminated by a signal, or
  aborted by a failed \<^verbatim>\<open>assert\<close>. No statement of the program runs in a state whose status
  is not \<open>Running\<close>.
\<close>

datatype pstatus = Running | Killed int | Aborted

record state =
  files :: "string \<rightharpoonup> regfile"
  dirs :: "string set"
  errno :: int
  status :: pstatus
  signals_sent :: "int list"
  stderr_out :: "string list"
  logfile_out :: "string list"

text \<open>
  The action the process has in place for \<^verbatim>\<open>SIGHUP\<close> when \<^verbatim>\<open>KillSelf\<close> runs. It is set
  outside this file (inherited from the parent process, or installed by the file-system
  library), so it is a parameter: with \<open>SIG_DFL\<close> the delivery terminates the process, with
  \<open>SIG_IGN\<close> the signal is discarded, with \<open>SIG_HANDLER\<close> a handler runs and returns.
\<close>

datatype disposition = SIG_DFL | SIG_IGN | SIG_HANDLER

text \<open>
  The environment. The \<open>g_\<close> fields and the upper-case constants are declared in
  \<^verbatim>\<open>UtilsPrivate.h\<close>; \<open>ExecuteQuery\<close>, \<open>Split\<close> and \<open>CreateCustomQueriesOutputFiles\<close> are
  functions of other files of the repository and are taken as they are called.
  \<open>ExecuteQuery\<close> yields the error code and the response string; its own diagnostics are
  not modelled. The \<open>_fault\<close> fields say for which paths the operating system refuses a
  call, and with which \<^verbatim>\<open>errno\<close>. \<open>NDEBUG\<close> says whether \<^verbatim>\<open>assert\<close> is compiled out.
\<close>

record env =
  g_UserPaths :: UserPaths
  g_InVerbose :: bool
  g_UseLogFile :: bool
  g_ServerInfoMap :: "string \<rightharpoonup> ServerInfo"
  g_LocallyGeneratedFiles :: string
  LINUX_PATH_DELIM :: string
  CUSTOM_QUERY_FOLDER_NAME :: string
  TYPE_TSV :: int
  NDEBUG :: bool
  strerror :: "int \<Rightarrow> string"
  sighup_disposition :: disposition
  fopen_fault :: "string \<Rightarrow> int option"
  setxattr_fault :: "string \<Rightarrow> int option"
  getxattr_fault :: "string \<Rightarrow> int option"
  mkdir_fault :: "string \<Rightarrow> int option"
  ExecuteQuery :: "string \<Rightarrow> string \<Rightarrow> string \<Rightarrow> string \<Rightarrow> int \<Rightarrow> int \<times> string"
  Split :: "string \<Rightarrow> char \<Rightarrow> string list"
  CreateCustomQueriesOutputFiles :: "string \<Rightarrow> string \<Rightarrow> state \<Rightarrow> state"

definition SIGHUP :: int where "SIGHUP = 1"
definition ENOENT :: int where "ENOENT = 2"
definition EEXIST :: int where "EEXIST = 17"
definition EISDIR :: int where "EISDIR = 21"
definition ENODATA :: int where "ENODATA = 61"

subsection \<open>C strings and formatting\<close>

text \<open>
  \<^verbatim>\<open>std::string::c_str()\<close> handed to a function that takes \<^verbatim>\<open>const char*\<close>: the callee reads
  up to the first NUL byte. A parameter that is already a \<^verbatim>\<open>const char*\<close> is passed as it is.
\<close>

definition c_str :: "string \<Rightarrow> string" where
  "c_str s = takeWhile (\<lambda>c. c \<noteq> CHR 0x00) s"

text \<open>
  The \<^verbatim>\<open>printf\<close> formatting behind \<^verbatim>\<open>StringFormat\<close> and \<^verbatim>\<open>vfprintf\<close>, for the one
  conversion the file uses: each \<^verbatim>\<open>%s\<close> is replaced by the next argument. (A \<^verbatim>\<open>%s\<close> with
  no argument left is undefined in C; here it prints nothing.)
\<close>

fun StringFormat :: "string \<Rightarrow> string list \<Rightarrow> string" where
  "StringFormat [] args = []"
| "StringFormat [c] args = [c]"
| "StringFormat (c # d # rest) args =
     (if c = CHR ''%'' \<and> d = CHR ''s''
      then (case args of [] \<Rightarrow> StringFormat rest [] | a # args' \<Rightarrow> a @ StringFormat rest args')
      else c # StringFormat (d # rest) args)"

subsection \<open>The system calls the file makes\<close>

text \<open>\<^verbatim>\<open>fopen(path, "w+")\<close>: creates the file or truncates it; the result says whether the
  stream is non-null.\<close>

definition fopen_w :: "env \<Rightarrow> string \<Rightarrow> state \<Rightarrow> bool \<times> state" where
  "fopen_w w path s =
     (case fopen_fault w path of
        Some e \<Rightarrow> (False, s\<lparr>errno := e\<rparr>)
      | None \<Rightarrow>
          if path \<in> dirs s then (False, s\<lparr>errno := EISDIR\<rparr>)
          else (True, s\<lparr>files := (files s)(path \<mapsto>
                  (case files s path of
                     None \<Rightarrow> \<lparr>content = [], xattrs = Map.empty\<rparr>
                   | Some f \<Rightarrow> f\<lparr>content := []\<rparr>))\<rparr>))"

text \<open>\<^verbatim>\<open>setxattr(path, name, value, size, 0)\<close>: stores the first \<open>n\<close> bytes of the value.\<close>

definition setxattr :: "env \<Rightarrow> string \<Rightarrow> string \<Rightarrow> string \<Rightarrow> nat \<Rightarrow> state \<Rightarrow> int \<times> state" where
  "setxattr w path name val n s =
     (case setxattr_fault w path of
        Some e \<Rightarrow> (- 1, s\<lparr>errno := e\<rparr>)
      | None \<Rightarrow>
          (case files s path of
             None \<Rightarrow> (- 1, s\<lparr>errno := ENOENT\<rparr>)
           | Some f \<Rightarrow>
               (0, s\<lparr>files := (files s)(path \<mapsto> f\<lparr>xattrs := (xattrs f)(name \<mapsto> take n val)\<rparr>)\<rparr>)))"

text \<open>\<^verbatim>\<open>getxattr(path, name, NULL, 0)\<close>: the size of the attribute's value, or -1.\<close>

definition getxattr :: "env \<Rightarrow> string \<Rightarrow> string \<Rightarrow> state \<Rightarrow> int \<times> state" where
  "getxattr w path name s =
     (case getxattr_fault w path of
        Some e \<Rightarrow> (- 1, s\<lparr>errno := e\<rparr>)
      | None \<Rightarrow>
          (case files s path of
             None \<Rightarrow> (- 1, s\<lparr>errno := (if path \<in> dirs s then ENODATA else ENOENT)\<rparr>)
           | Some f \<Rightarrow>
               (case xattrs f name of
                  None \<Rightarrow> (- 1, s\<lparr>errno := ENODATA\<rparr>)
                | Some v \<Rightarrow> (int (length v), s))))"

text \<open>\<^verbatim>\<open>mkdir(path, DEFAULT_PERMISSIONS)\<close>.\<close>

definition mkdir :: "env \<Rightarrow> string \<Rightarrow> state \<Rightarrow> int \<times> state" where
  "mkdir w path s =
     (if path \<in> dirs s \<or> files s path \<noteq> None then (- 1, s\<lparr>errno := EEXIST\<rparr>)
      else (case mkdir_fault w path of
              Some e \<Rightarrow> (- 1, s\<lparr>errno := e\<rparr>)
            | None \<Rightarrow> (0, s\<lparr>dirs := insert path (dirs s)\<rparr>)))"

text \<open>\<^verbatim>\<open>kill(getpid(), sig)\<close>: the signal is sent; whether the call returns is the
  disposition's matter.\<close>

definition kill_self :: "env \<Rightarrow> int \<Rightarrow> state \<Rightarrow> state" where
  "kill_self w sig s =
     (let s1 = s\<lparr>signals_sent := signals_sent s @ [sig]\<rparr>
      in case sighup_disposition w of
           SIG_DFL \<Rightarrow> s1\<lparr>status := Killed sig\<rparr>
         | SIG_IGN \<Rightarrow> s1
         | SIG_HANDLER \<Rightarrow> s1)"

text \<open>A failed \<^verbatim>\<open>assert(e)\<close>: a diagnostic on the standard error stream, then \<^verbatim>\<open>abort()\<close>.\<close>

definition assert_fail :: "string \<Rightarrow> state \<Rightarrow> state" where
  "assert_fail e s =
     s\<lparr>stderr_out := stderr_out s @ [''Assertion `'' @ e @ ''' failed.'' @ [CHR 0x0A]],
       status := Aborted\<rparr>"

subsection \<open>The functions of the file\<close>

definition CalculateDumpPath :: "env \<Rightarrow> string \<Rightarrow> string" where
  "CalculateDumpPath w path = m_dumpPath (g_UserPaths w) @ path"

text \<open>
  \<^verbatim>\<open>PrintMsg\<close>: nothing unless verbose; to the log file when one is in use and can be
  opened for appending, to the standard error stream otherwise. The text written to the log
  file is kept in \<open>logfile_out\<close>, apart from the files of the dump directory.
\<close>

definition PrintMsg :: "env \<Rightarrow> string \<Rightarrow> string list \<Rightarrow> state \<Rightarrow> state" where
  "PrintMsg w format args s =
     (if g_InVerbose w then
        (if g_UseLogFile w then
           (case fopen_fault w (c_str (m_logfilePath (g_UserPaths w))) of
              Some e \<Rightarrow> s\<lparr>errno := e\<rparr>
            | None \<Rightarrow> s\<lparr>logfile_out := logfile_out s @ [StringFormat format args]\<rparr>)
         else s\<lparr>stderr_out := stderr_out s @ [StringFormat format args]\<rparr>)
      else s)"

definition KillSelf :: "env \<Rightarrow> state \<Rightarrow> state" where
  "KillSelf w s = kill_self w SIGHUP s"

text \<open>
  \<^verbatim>\<open>GetServerDetails\<close>: the three reference parameters are passed in and handed back with
  the contents they have when the function is left.
\<close>

definition GetServerDetails ::
  "env \<Rightarrow> string \<Rightarrow> string \<times> string \<times> string \<Rightarrow> state \<Rightarrow> (string \<times> string \<times> string) \<times> state" where
  "GetServerDetails w servername refs s =
     (case g_ServerInfoMap w servername of
        Some search \<Rightarrow> ((m_hostname search, m_username search, m_password search), s)
      | None \<Rightarrow>
          (refs, KillSelf w (PrintMsg w (''Unknown server %s'' @ [CHR 0x0A]) [c_str servername] s)))"

definition CreateFile :: "env \<Rightarrow> string \<Rightarrow> state \<Rightarrow> state" where
  "CreateFile w path s =
     (let (fp, s1) = fopen_w w path s;
          s2 = (if \<not> fp
                then KillSelf w
                       (PrintMsg w (''Error creating file %s %s'' @ [CHR 0x0A])
                          [path, strerror w (errno s1)] s1)
                else s1)
      in if status s2 \<noteq> Running then s2
         else
           (let (st, s3) = setxattr w path (g_LocallyGeneratedFiles w) ''1'' 0 s2
            in if st \<noteq> 0
               then KillSelf w
                      (PrintMsg w (''Error setting extended attributes for file %s : %s'' @ [CHR 0x0A])
                         [path, strerror w (errno s3)] s3)
               else s3))"

definition IsDbfsFile :: "env \<Rightarrow> string \<Rightarrow> state \<Rightarrow> bool \<times> state" where
  "IsDbfsFile w path s =
     (let fpath = CalculateDumpPath w path;
          (len, s1) = getxattr w (c_str fpath) (g_LocallyGeneratedFiles w) s;
          result = (if len \<ge> 0 then True else False)
      in (result, s1))"

definition CreateCustomQueriesDir :: "env \<Rightarrow> string \<Rightarrow> string \<Rightarrow> state \<Rightarrow> state" where
  "CreateCustomQueriesDir w dumpDir servername s =
     (let customQueryFolderPath = dumpDir @ LINUX_PATH_DELIM w @ CUSTOM_QUERY_FOLDER_NAME w;
          (error, s1) = mkdir w (c_str customQueryFolderPath) s
      in if error = 0
         then CreateCustomQueriesOutputFiles w servername customQueryFolderPath s1
         else PrintMsg w (''mkdir failed for %s- %s'' @ [CHR 0x0A])
                [c_str customQueryFolderPath, strerror w (errno s1)] s1)"

text \<open>
  The loop of \<^verbatim>\<open>CreateDMVFiles\<close>, from index \<open>i\<close> on. \<^verbatim>\<open>numEntries\<close> is the size of the
  vector (the conversion to \<^verbatim>\<open>int\<close> is exact below \<open>2^31\<close> rows).
\<close>

function CreateDMVFiles_loop ::
  "env \<Rightarrow> string \<Rightarrow> string list \<Rightarrow> int \<Rightarrow> nat \<Rightarrow> state \<Rightarrow> state" where
  "CreateDMVFiles_loop w dumpDir filenames version i s =
     (if i < length filenames then
        (if i = 0 then CreateDMVFiles_loop w dumpDir filenames version (i + 1) s
         else
           (let filepath = StringFormat ''%s/%s'' [c_str dumpDir, c_str (filenames ! i)];
                s1 = CreateFile w (c_str filepath) s;
                s2 = (if status s1 = Running \<and> version \<ge> 16
                      then CreateFile w (c_str (StringFormat ''%s.json'' [c_str filepath])) s1
                      else s1)
            in if status s2 = Running
               then CreateDMVFiles_loop w dumpDir filenames version (i + 1) s2
               else s2))
      else s)"
  by pat_completeness auto
termination
  by (relation "measure (\<lambda>(w, dumpDir, filenames, version, i, s). length filenames - i)") auto

definition CreateDMVFiles ::
  "env \<Rightarrow> string \<Rightarrow> string \<Rightarrow> string \<Rightarrow> string \<Rightarrow> string \<Rightarrow> int \<Rightarrow> state \<Rightarrow> state" where
  "CreateDMVFiles w dumpDir servername hostname username password version s =
     (let dmvQuery = ''SELECT name from sys.system_views where schema_id = 4'';
          (error, responseString) =
             ExecuteQuery w dmvQuery hostname username password (TYPE_TSV w)
      in if error \<noteq> 0 then PrintMsg w (''Failed to query DMV list'' @ [CHR 0x0A]) [] s
         else
           (let filenames = Split w responseString (CHR 0x0A);
                numEntries = length filenames
            in if \<not> NDEBUG w \<and> \<not> (numEntries > 1) then assert_fail ''numEntries > 1'' s
               else CreateDMVFiles_loop w dumpDir filenames version 0 s))"

definition CreateDbfsFiles ::
  "env \<Rightarrow> string \<Rightarrow> string \<Rightarrow> string \<Rightarrow> string \<Rightarrow> int \<Rightarrow> state \<Rightarrow> state" where
  "CreateDbfsFiles w servername hostname username password version s =
     (let fpath = CalculateDumpPath w servername;
          (error, s1) = mkdir w (c_str fpath) s
      in if error = 0
         then
           (let s2 = CreateCustomQueriesDir w fpath servername s1
            in if status s2 = Running
               then CreateDMVFiles w fpath servername hostname username password version s2
               else s2)
         else
           (let s2 = PrintMsg w (''mkdir failed for %s- %s'' @ [CHR 0x0A])
                       [c_str fpath, strerror w (errno s1)] s1;
                s3 = PrintMsg w
                       (''There was an error creating the folders to hold the server DMV files. Exiting.''
                        @ [CHR 0x0A]) [] s2
            in KillSelf w s3))"

subsection \<open>One pass through the loop body\<close>

text \<open>
  The body of the loop of \<^verbatim>\<open>CreateDMVFiles\<close> for an index \<open>i > 0\<close>, named so that the
  lemmas about the loop can speak of it.
\<close>

definition loop_body :: "env \<Rightarrow> string \<Rightarrow> string list \<Rightarrow> int \<Rightarrow> nat \<Rightarrow> state \<Rightarrow> state" where
  "loop_body w d fs v i s =
     (let filepath = StringFormat ''%s/%s'' [c_str d, c_str (fs ! i)];
          s1 = CreateFile w (c_str filepath) s
      in if status s1 = Running \<and> v \<ge> 16
         then CreateFile w (c_str (StringFormat ''%s.json'' [c_str filepath])) s1
         else s1)"

subsection \<open>Placeholders\<close>

text \<open>
  The path of the placeholder for row \<open>i\<close> in the directory \<open>d\<close>, as the loop builds it,
  and what a finished placeholder is: an empty file that carries the attribute with an
  empty value.
\<close>

definition row_path :: "string \<Rightarrow> string list \<Rightarrow> nat \<Rightarrow> string" where
  "row_path d fs i = c_str d @ ''/'' @ c_str (fs ! i)"

definition is_placeholder :: "env \<Rightarrow> state \<Rightarrow> string \<Rightarrow> bool" where
  "is_placeholder w s p =
     (case files s p of
        None \<Rightarrow> False
      | Some f \<Rightarrow> content f = [] \<and> xattrs f (g_LocallyGeneratedFiles w) = Some [])"

subsection \<open>What the diagnostics sink holds\<close>

text \<open>
  \<open>diag_on\<close>: \<^verbatim>\<open>PrintMsg\<close> really writes (verbose mode, and the log file opens if one is in
  use); \<open>diag_out\<close>: the sink it then writes to.
\<close>

definition diag_on :: "env \<Rightarrow> bool" where
  "diag_on w =
     (g_InVerbose w \<and>
      (if g_UseLogFile w then fopen_fault w (c_str (m_logfilePath (g_UserPaths w))) = None
       else True))"

definition diag_out :: "env \<Rightarrow> state \<Rightarrow> string list" where
  "diag_out w s = (if g_UseLogFile w then logfile_out s else stderr_out s)"

subsection \<open>A concrete environment\<close>

text \<open>
  Sample values for the parameters, used where a statement is evaluated on a concrete
  input: a splitter that cuts at every delimiter (a trailing delimiter opens no further
  row), a catalog answer with the header and the rows \<open>a\<close> and \<open>b\<close>, a system without
  faults, and a dump directory that exists and is empty.
\<close>

definition split_rows :: "string \<Rightarrow> char \<Rightarrow> string list" where
  "split_rows str d =
     foldr (\<lambda>c acc. if c = d then [] # acc
                     else (case acc of [] \<Rightarrow> [[c]] | r # rs \<Rightarrow> (c # r) # rs)) str []"

definition sample_strerror :: "int \<Rightarrow> string" where
  "sample_strerror e =
     (if e = 2 then ''No such file or directory''
      else if e = 13 then ''Permission denied''
      else if e = 17 then ''File exists''
      else ''Unknown error'')"

definition sample_env :: env where
  "sample_env =
     \<lparr>g_UserPaths = \<lparr>m_dumpPath = ''/dump/'', m_logfilePath = ''/var/log/dbfs.log''\<rparr>,
      g_InVerbose = True,
      g_UseLogFile = False,
      g_ServerInfoMap =
        [''srv'' \<mapsto> \<lparr>m_hostname = ''10.0.0.1'', m_username = ''sa'', m_password = ''pw'',
                     m_customQueriesPath = ''/home/u/queries''\<rparr>],
      g_LocallyGeneratedFiles = ''user.dbfs.local'',
      LINUX_PATH_DELIM = ''/'',
      CUSTOM_QUERY_FOLDER_NAME = ''customQueries'',
      TYPE_TSV = 0,
      NDEBUG = False,
      strerror = sample_strerror,
      sighup_disposition = SIG_DFL,
      fopen_fault = (\<lambda>p. None),
      setxattr_fault = (\<lambda>p. None),
      getxattr_fault = (\<lambda>p. None),
      mkdir_fault = (\<lambda>p. None),
      ExecuteQuery = (\<lambda>q h u p t. (0, ''ColumnName'' @ [CHR 0x0A] @ ''a'' @ [CHR 0x0A] @ ''b'')),
      Split = split_rows,
      CreateCustomQueriesOutputFiles = (\<lambda>servername folder s. s)\<rparr>"

definition sample_state :: state where
  "sample_state =
     \<lparr>files = Map.empty, dirs = {''/dump/''}, errno = 0, status = Running,
      signals_sent = [], stderr_out = [], logfile_out = []\<rparr>"

text \<open>The same system with the server's directory in place, and one where the file
  \<open>a\<close> of that directory cannot be created (\<^verbatim>\<open>EACCES\<close>).\<close>

definition srv_state :: state where
  "srv_state = sample_state\<lparr>dirs := {''/dump/'', ''/dump/srv''}\<rparr>"

definition env_a :: env where
  "env_a = sample_env\<lparr>fopen_fault := (\<lambda>p. if p = ''/dump/srv/a'' then Some 13 else None)\<rparr>"

text \<open>
  Further variants of the sample system: the catalog answers with the header row only;
  the server's directory (with \<^verbatim>\<open>SIGHUP\<close> at its default action, or ignored), or only
  its custom-query directory, cannot be created (\<^verbatim>\<open>EACCES\<close>); \<^verbatim>\<open>SIGHUP\<close> is handled while \<open>a\<close> cannot be created; and a dump directory
  that holds a tagged file (with a non-empty attribute value) beside an untagged one.
\<close>

definition env_hdr :: env where
  "env_hdr = sample_env\<lparr>ExecuteQuery := (\<lambda>q h u p t. (0, ''ColumnName''))\<rparr>"

definition env_nomkdir :: env where
  "env_nomkdir = sample_env\<lparr>mkdir_fault := (\<lambda>p. if p = ''/dump/srv'' then Some 13 else None)\<rparr>"

definition env_nomkdir_ign :: env where
  "env_nomkdir_ign = env_nomkdir\<lparr>sighup_disposition := SIG_IGN\<rparr>"

definition env_nocq :: env where
  "env_nocq = sample_env\<lparr>mkdir_fault :=
       (\<lambda>p. if p = ''/dump/srv/customQueries'' then Some 13 else None)\<rparr>"

definition env_handled :: env where
  "env_handled = env_a\<lparr>sighup_disposition := SIG_HANDLER\<rparr>"

definition tagged_state :: state where
  "tagged_state = srv_state\<lparr>files :=
       [''/dump/srv/a'' \<mapsto> \<lparr>content = [], xattrs = [''user.dbfs.local'' \<mapsto> ''xyz'']\<rparr>,
        ''/dump/srv/real'' \<mapsto> \<lparr>content = ''1 row'', xattrs = Map.empty\<rparr>]\<rparr>"

section \<open>Lemmas\<close>

subsection \<open>Frame properties of the primitives\<close>

declare CreateDMVFiles_loop.simps [simp del]

lemma c_str_append: "c_str (c_str x @ y) = c_str x @ c_str y"
  unfolding c_str_def by (rule takeWhile_append2) (auto dest: set_takeWhileD)

lemma c_str_idem: "c_str (c_str x) = c_str x"
  using c_str_append [of x "[]"] by (simp add: c_str_def)

lemma c_str_Nil: "c_str [] = []"
  by (simp add: c_str_def)

lemma c_str_Cons: "c \<noteq> CHR 0x00 \<Longrightarrow> c_str (c # x) = c # c_str x"
  by (simp add: c_str_def)

lemma PrintMsg_frame:
  "files (PrintMsg w f a s) = files s"
  "dirs (PrintMsg w f a s) = dirs s"
  "status (PrintMsg w f a s) = status s"
  "signals_sent (PrintMsg w f a s) = signals_sent s"
  by (simp_all add: PrintMsg_def split: option.split)

lemma PrintMsg_diag:
  "diag_on w \<Longrightarrow> diag_out w (PrintMsg w f a s) = diag_out w s @ [StringFormat f a]"
  by (auto simp: PrintMsg_def diag_on_def diag_out_def split: option.split if_splits)

lemma PrintMsg_diag_prefix: "prefix (diag_out w s) (diag_out w (PrintMsg w f a s))"
  by (simp add: PrintMsg_def diag_out_def split: option.split)

lemma KillSelf_frame:
  "files (KillSelf w s) = files s"
  "dirs (KillSelf w s) = dirs s"
  "diag_out w (KillSelf w s) = diag_out w s"
  "stderr_out (KillSelf w s) = stderr_out s"
  "logfile_out (KillSelf w s) = logfile_out s"
  "signals_sent (KillSelf w s) = signals_sent s @ [SIGHUP]"
  by (simp_all add: KillSelf_def kill_self_def diag_out_def Let_def split: disposition.split)

lemma KillSelf_status:
  "status (KillSelf w s) = (if sighup_disposition w = SIG_DFL then Killed SIGHUP else status s)"
  by (simp add: KillSelf_def kill_self_def Let_def split: disposition.split)

lemma fopen_w_frame:
  "dirs (snd (fopen_w w p s)) = dirs s"
  "status (snd (fopen_w w p s)) = status s"
  "signals_sent (snd (fopen_w w p s)) = signals_sent s"
  "diag_out w' (snd (fopen_w w p s)) = diag_out w' s"
  by (simp_all add: fopen_w_def diag_out_def split: option.split)

lemma fopen_w_fail_files: "\<not> fst (fopen_w w p s) \<Longrightarrow> files (snd (fopen_w w p s)) = files s"
  by (simp add: fopen_w_def split: option.splits if_splits)

lemma setxattr_frame:
  "dirs (snd (setxattr w p n v k s)) = dirs s"
  "status (snd (setxattr w p n v k s)) = status s"
  "signals_sent (snd (setxattr w p n v k s)) = signals_sent s"
  "diag_out w' (snd (setxattr w p n v k s)) = diag_out w' s"
  by (simp_all add: setxattr_def diag_out_def split: option.split)

lemma mkdir_frame:
  "files (snd (mkdir w p s)) = files s"
  "status (snd (mkdir w p s)) = status s"
  "signals_sent (snd (mkdir w p s)) = signals_sent s"
  "diag_out w' (snd (mkdir w p s)) = diag_out w' s"
  by (simp_all add: mkdir_def diag_out_def split: option.split)

lemma mkdir_fail_dirs: "fst (mkdir w p s) \<noteq> 0 \<Longrightarrow> dirs (snd (mkdir w p s)) = dirs s"
  by (auto simp: mkdir_def split: option.splits if_splits)

subsection \<open>\<^verbatim>\<open>CreateFile\<close>\<close>

lemma CreateFile_signals_prefix: "prefix (signals_sent s) (signals_sent (CreateFile w p s))"
  by (simp add: CreateFile_def Let_def case_prod_beta KillSelf_frame PrintMsg_frame
        fopen_w_frame setxattr_frame)

lemma CreateFile_diag_prefix: "prefix (diag_out w s) (diag_out w (CreateFile w p s))"
proof -
  have step: "prefix xs (diag_out w t) \<Longrightarrow> prefix xs (diag_out w (PrintMsg w f a t))" for xs f a t
    using PrintMsg_diag_prefix prefix_order.trans by blast
  show ?thesis
    by (simp add: CreateFile_def Let_def case_prod_beta KillSelf_frame
          fopen_w_frame setxattr_frame step)
qed

lemma CreateFile_dirs: "dirs (CreateFile w p s) = dirs s"
  by (simp add: CreateFile_def Let_def case_prod_beta KillSelf_frame PrintMsg_frame
        fopen_w_frame setxattr_frame)

lemma CreateFile_status_returns:
  "sighup_disposition w \<noteq> SIG_DFL \<Longrightarrow> status s = Running \<Longrightarrow> status (CreateFile w p s) = Running"
  by (simp add: CreateFile_def Let_def case_prod_beta KillSelf_status PrintMsg_frame
        fopen_w_frame setxattr_frame)

lemma CreateFile_fopen_fails:
  assumes "\<not> fst (fopen_w w p s)"
  shows "prefix (signals_sent s @ [SIGHUP]) (signals_sent (CreateFile w p s))"
    and "diag_on w \<Longrightarrow>
           prefix (diag_out w s @ [StringFormat (''Error creating file %s %s'' @ [CHR 0x0A])
                                     [p, strerror w (errno (snd (fopen_w w p s)))]])
                  (diag_out w (CreateFile w p s))"
    and "sighup_disposition w = SIG_DFL \<Longrightarrow>
           CreateFile w p s =
             KillSelf w (PrintMsg w (''Error creating file %s %s'' @ [CHR 0x0A])
                           [p, strerror w (errno (snd (fopen_w w p s)))] (snd (fopen_w w p s)))"
proof -
  have step: "prefix xs (diag_out w t) \<Longrightarrow> prefix xs (diag_out w (PrintMsg w f a t))" for xs f a t
    using PrintMsg_diag_prefix prefix_order.trans by blast
  show "prefix (signals_sent s @ [SIGHUP]) (signals_sent (CreateFile w p s))"
    using assms
    by (simp add: CreateFile_def Let_def case_prod_beta KillSelf_frame PrintMsg_frame
          fopen_w_frame setxattr_frame)
  show "prefix (diag_out w s @ [StringFormat (''Error creating file %s %s'' @ [CHR 0x0A])
                                     [p, strerror w (errno (snd (fopen_w w p s)))]])
                  (diag_out w (CreateFile w p s))" if "diag_on w"
    using assms that
    by (simp add: CreateFile_def Let_def case_prod_beta KillSelf_frame PrintMsg_diag
          fopen_w_frame setxattr_frame step del: StringFormat.simps)
  show "CreateFile w p s =
             KillSelf w (PrintMsg w (''Error creating file %s %s'' @ [CHR 0x0A])
                           [p, strerror w (errno (snd (fopen_w w p s)))] (snd (fopen_w w p s)))"
    if "sighup_disposition w = SIG_DFL"
    using assms that
    by (simp add: CreateFile_def Let_def case_prod_beta KillSelf_status)
qed

lemma CreateFile_ok:
  assumes "fopen_fault w p = None" "setxattr_fault w p = None" "p \<notin> dirs s" "status s = Running"
  shows "CreateFile w p s =
           s\<lparr>files := (files s)(p \<mapsto>
                \<lparr>content = [],
                 xattrs = (case files s p of None \<Rightarrow> Map.empty | Some f \<Rightarrow> xattrs f)
                            (g_LocallyGeneratedFiles w \<mapsto> [])\<rparr>)\<rparr>"
proof (cases "files s p")
  case None
  with assms show ?thesis
    by (simp add: CreateFile_def fopen_w_def setxattr_def Let_def)
next
  case (Some f)
  obtain c x where f: "f = \<lparr>content = c, xattrs = x\<rparr>" by (cases f) simp
  from assms Some show ?thesis
    by (simp add: CreateFile_def fopen_w_def setxattr_def Let_def f)
qed

lemma CreateFile_ok_props:
  assumes "fopen_fault w p = None" "setxattr_fault w p = None" "p \<notin> dirs s" "status s = Running"
  shows "status (CreateFile w p s) = Running"
    and "dirs (CreateFile w p s) = dirs s"
    and "signals_sent (CreateFile w p s) = signals_sent s"
    and "stderr_out (CreateFile w p s) = stderr_out s"
    and "logfile_out (CreateFile w p s) = logfile_out s"
    and "files (CreateFile w p s) q =
           (if q = p
            then Some \<lparr>content = [],
                       xattrs = (case files s p of None \<Rightarrow> Map.empty | Some f \<Rightarrow> xattrs f)
                                  (g_LocallyGeneratedFiles w \<mapsto> [])\<rparr>
            else files s q)"
  by (simp_all add: CreateFile_ok [OF assms] assms)

subsection \<open>The loop of \<^verbatim>\<open>CreateDMVFiles\<close>\<close>

lemma loop_done: "\<not> i < length fs \<Longrightarrow> CreateDMVFiles_loop w d fs v i s = s"
  by (subst CreateDMVFiles_loop.simps) simp

lemma loop_zero: "0 < length fs \<Longrightarrow> CreateDMVFiles_loop w d fs v 0 s = CreateDMVFiles_loop w d fs v 1 s"
  by (subst CreateDMVFiles_loop.simps) simp

lemma loop_step:
  "0 < i \<Longrightarrow> i < length fs \<Longrightarrow>
   CreateDMVFiles_loop w d fs v i s =
     (if status (loop_body w d fs v i s) = Running
      then CreateDMVFiles_loop w d fs v (i + 1) (loop_body w d fs v i s)
      else loop_body w d fs v i s)"
  by (subst CreateDMVFiles_loop.simps) (simp add: loop_body_def Let_def del: StringFormat.simps)

lemma loop_body_prefix:
  assumes cf: "\<And>p t. prefix (g t) (g (CreateFile w p t))"
  shows "prefix (g s) (g (loop_body w d fs v i s))"
  unfolding loop_body_def Let_def
  by (auto intro: prefix_order.trans [OF cf cf] cf)

lemma loop_prefix:
  assumes cf: "\<And>p t. prefix (g t) (g (CreateFile w p t))"
  shows "prefix (g s) (g (CreateDMVFiles_loop w d fs v i s))"
  using cf
proof (induction w d fs v i s rule: CreateDMVFiles_loop.induct)
  case (1 w d fs v i s)
  note cf' = "1.prems"
  show ?case
  proof (cases "i < length fs")
    case False
    then show ?thesis by (simp add: loop_done)
  next
    case inb: True
    show ?thesis
    proof (cases "i = 0")
      case True
      with inb "1.IH"(1) cf' show ?thesis by (simp add: loop_zero)
    next
      case False
      let ?b = "loop_body w d fs v i s"
      have body: "prefix (g s) (g ?b)"
        by (rule loop_body_prefix) (rule cf')
      show ?thesis
      proof (cases "status ?b = Running")
        case True
        have "prefix (g ?b) (g (CreateDMVFiles_loop w d fs v (i + 1) ?b))"
          using "1.IH"(2) [OF inb False refl refl refl] True cf'
          by (simp add: loop_body_def Let_def del: StringFormat.simps)
        with body have "prefix (g s) (g (CreateDMVFiles_loop w d fs v (i + 1) ?b))"
          by (rule prefix_order.trans)
        with inb False True show ?thesis
          by (simp add: loop_step)
      next
        case stopped: False
        with inb False body show ?thesis
          by (simp add: loop_step)
      qed
    qed
  qed
qed

lemma loop_signals_prefix:
  "prefix (signals_sent s) (signals_sent (CreateDMVFiles_loop w d fs v i s))"
  by (rule loop_prefix) (rule CreateFile_signals_prefix)

lemma loop_diag_prefix:
  "prefix (diag_out w s) (diag_out w (CreateDMVFiles_loop w d fs v i s))"
  by (rule loop_prefix) (rule CreateFile_diag_prefix)

lemma loop_body_status_returns:
  "sighup_disposition w \<noteq> SIG_DFL \<Longrightarrow> status s = Running \<Longrightarrow>
   status (loop_body w d fs v i s) = Running"
  by (simp add: loop_body_def Let_def CreateFile_status_returns del: StringFormat.simps)

lemma loop_body_ok_low:
  assumes "v < 16" "status s = Running"
    and "fopen_fault w (c_str d @ ''/'' @ c_str (fs ! i)) = None"
    and "setxattr_fault w (c_str d @ ''/'' @ c_str (fs ! i)) = None"
    and "c_str d @ ''/'' @ c_str (fs ! i) \<notin> dirs s"
  shows "loop_body w d fs v i s = CreateFile w (c_str d @ ''/'' @ c_str (fs ! i)) s"
  using assms by (simp add: loop_body_def Let_def c_str_append c_str_Cons c_str_Nil c_str_idem)

lemma loop_body_ok_high:
  assumes "v \<ge> 16" "status s = Running"
    and "fopen_fault w (c_str d @ ''/'' @ c_str (fs ! i)) = None"
    and "setxattr_fault w (c_str d @ ''/'' @ c_str (fs ! i)) = None"
    and "c_str d @ ''/'' @ c_str (fs ! i) \<notin> dirs s"
  shows "loop_body w d fs v i s =
           CreateFile w (c_str d @ ''/'' @ c_str (fs ! i) @ ''.json'')
             (CreateFile w (c_str d @ ''/'' @ c_str (fs ! i)) s)"
  using assms
  by (simp add: loop_body_def Let_def c_str_append c_str_Cons c_str_Nil c_str_idem
        CreateFile_ok_props(1))

subsection \<open>Placeholders through the loop\<close>

lemma mkdir_ok_dirs: "fst (mkdir w p s) = 0 \<Longrightarrow> dirs (snd (mkdir w p s)) = insert p (dirs s)"
  by (auto simp: mkdir_def split: option.splits if_splits)

lemma CreateFile_keeps_placeholder:
  "is_placeholder w s p \<Longrightarrow> is_placeholder w (CreateFile w q s) p"
  by (auto simp: is_placeholder_def CreateFile_def fopen_w_def setxattr_def Let_def
        KillSelf_frame PrintMsg_frame split: option.splits if_splits)

lemma CreateFile_makes_placeholder:
  assumes "fopen_fault w p = None" "setxattr_fault w p = None" "p \<notin> dirs s" "status s = Running"
  shows "is_placeholder w (CreateFile w p s) p"
  by (simp add: is_placeholder_def CreateFile_ok_props(6) [OF assms])

lemma loop_body_keeps_placeholder:
  "is_placeholder w s p \<Longrightarrow> is_placeholder w (loop_body w d fs v i s) p"
  by (simp add: loop_body_def Let_def CreateFile_keeps_placeholder del: StringFormat.simps)

lemma loop_keeps_placeholder:
  "is_placeholder w s p \<Longrightarrow> is_placeholder w (CreateDMVFiles_loop w d fs v i s) p"
proof (induction w d fs v i s rule: CreateDMVFiles_loop.induct)
  case (1 w d fs v i s)
  show ?case
  proof (cases "i < length fs")
    case False
    with "1.prems" show ?thesis by (simp add: loop_done)
  next
    case inb: True
    show ?thesis
    proof (cases "i = 0")
      case True
      with inb "1.IH"(1) "1.prems" show ?thesis by (simp add: loop_zero)
    next
      case False
      let ?b = "loop_body w d fs v i s"
      have body: "is_placeholder w ?b p"
        using "1.prems" by (rule loop_body_keeps_placeholder)
      show ?thesis
      proof (cases "status ?b = Running")
        case True
        have "is_placeholder w (CreateDMVFiles_loop w d fs v (i + 1) ?b) p"
          using "1.IH"(2) [OF inb False refl refl refl] True body
          by (simp add: loop_body_def Let_def del: StringFormat.simps)
        with inb False True show ?thesis by (simp add: loop_step)
      next
        case stopped: False
        with inb False body show ?thesis by (simp add: loop_step)
      qed
    qed
  qed
qed

lemma loop_body_no_fault:
  assumes nf: "\<And>p. fopen_fault w p = None" "\<And>p. setxattr_fault w p = None"
    and nd: "row_path d fs i \<notin> dirs s" "row_path d fs i @ ''.json'' \<notin> dirs s"
    and run: "status s = Running"
  shows "status (loop_body w d fs v i s) = Running"
    and "dirs (loop_body w d fs v i s) = dirs s"
    and "is_placeholder w (loop_body w d fs v i s) (row_path d fs i)"
    and "v \<ge> 16 \<Longrightarrow> is_placeholder w (loop_body w d fs v i s) (row_path d fs i @ ''.json'')"
proof -
  let ?p = "row_path d fs i"
  let ?s1 = "CreateFile w ?p s"
  note p1 = CreateFile_ok_props [OF nf(1) nf(2) nd(1) run]
  have ph1: "is_placeholder w ?s1 ?p"
    by (rule CreateFile_makes_placeholder [OF nf(1) nf(2) nd(1) run])
  have nd2: "?p @ ''.json'' \<notin> dirs ?s1" using nd(2) p1(2) by simp
  note p2 = CreateFile_ok_props [OF nf(1) nf(2) nd2 p1(1)]
  have ph2: "is_placeholder w (CreateFile w (?p @ ''.json'') ?s1) (?p @ ''.json'')"
    by (rule CreateFile_makes_placeholder [OF nf(1) nf(2) nd2 p1(1)])
  have low: "loop_body w d fs v i s = ?s1" if "v < 16"
    using loop_body_ok_low [OF that run nf(1) nf(2), of d fs i] nd(1)
    by (simp add: row_path_def)
  have high: "loop_body w d fs v i s = CreateFile w (?p @ ''.json'') ?s1" if "v \<ge> 16"
    using loop_body_ok_high [OF that run nf(1) nf(2), of d fs i] nd(1)
    by (simp add: row_path_def)
  show "status (loop_body w d fs v i s) = Running"
    using low high p1(1) p2(1) by (cases "v < 16") simp_all
  show "dirs (loop_body w d fs v i s) = dirs s"
    using low high p1(2) p2(2) by (cases "v < 16") simp_all
  show "is_placeholder w (loop_body w d fs v i s) ?p"
    using low high ph1 CreateFile_keeps_placeholder [OF ph1] by (cases "v < 16") simp_all
  show "is_placeholder w (loop_body w d fs v i s) (?p @ ''.json'')" if "v \<ge> 16"
    using high [OF that] ph2 by simp
qed

lemma loop_no_fault:
  assumes nf: "\<And>p. fopen_fault w p = None" "\<And>p. setxattr_fault w p = None"
    and nd: "\<And>j. 0 < j \<Longrightarrow> j < length fs \<Longrightarrow>
               row_path d fs j \<notin> dirs s \<and> row_path d fs j @ ''.json'' \<notin> dirs s"
    and run: "status s = Running"
  shows "status (CreateDMVFiles_loop w d fs v i s) = Running \<and>
         dirs (CreateDMVFiles_loop w d fs v i s) = dirs s \<and>
         (\<forall>j. i \<le> j \<and> 0 < j \<and> j < length fs \<longrightarrow>
            is_placeholder w (CreateDMVFiles_loop w d fs v i s) (row_path d fs j) \<and>
            (v \<ge> 16 \<longrightarrow>
               is_placeholder w (CreateDMVFiles_loop w d fs v i s) (row_path d fs j @ ''.json'')))"
  using nf nd run
proof (induction w d fs v i s rule: CreateDMVFiles_loop.induct)
  case (1 w d fs v i s)
  note nf' = "1.prems"(1,2) and nd' = "1.prems"(3) and run' = "1.prems"(4)
  show ?case
  proof (cases "i < length fs")
    case False
    with run' show ?thesis by (auto simp: loop_done)
  next
    case inb: True
    show ?thesis
    proof (cases "i = 0")
      case True
      have "status (CreateDMVFiles_loop w d fs v (0 + 1) s) = Running \<and>
         dirs (CreateDMVFiles_loop w d fs v (0 + 1) s) = dirs s \<and>
         (\<forall>j. 0 + 1 \<le> j \<and> 0 < j \<and> j < length fs \<longrightarrow>
            is_placeholder w (CreateDMVFiles_loop w d fs v (0 + 1) s) (row_path d fs j) \<and>
            (v \<ge> 16 \<longrightarrow>
               is_placeholder w (CreateDMVFiles_loop w d fs v (0 + 1) s) (row_path d fs j @ ''.json'')))"
        using "1.IH"(1) [OF inb True nf' nd' run'] True by simp
      with inb True show ?thesis by (simp add: loop_zero)
    next
      case False
      then have ipos: "0 < i" by simp
      let ?b = "loop_body w d fs v i s"
      have ndi: "row_path d fs i \<notin> dirs s" "row_path d fs i @ ''.json'' \<notin> dirs s"
        using nd' [OF ipos inb] by simp_all
      note b = loop_body_no_fault [OF nf' ndi run', of v]
      have ndb: "\<And>j. 0 < j \<Longrightarrow> j < length fs \<Longrightarrow>
               row_path d fs j \<notin> dirs ?b \<and> row_path d fs j @ ''.json'' \<notin> dirs ?b"
        using nd' b(2) by simp
      have step: "CreateDMVFiles_loop w d fs v i s = CreateDMVFiles_loop w d fs v (i + 1) ?b"
        using ipos inb b(1) by (simp add: loop_step)
      have IH: "status (CreateDMVFiles_loop w d fs v (i + 1) ?b) = Running \<and>
         dirs (CreateDMVFiles_loop w d fs v (i + 1) ?b) = dirs ?b \<and>
         (\<forall>j. i + 1 \<le> j \<and> 0 < j \<and> j < length fs \<longrightarrow>
            is_placeholder w (CreateDMVFiles_loop w d fs v (i + 1) ?b) (row_path d fs j) \<and>
            (v \<ge> 16 \<longrightarrow>
               is_placeholder w (CreateDMVFiles_loop w d fs v (i + 1) ?b) (row_path d fs j @ ''.json'')))"
        using "1.IH"(2) [OF inb False refl refl refl _ nf'] b(1) ndb
        by (simp add: loop_body_def Let_def del: StringFormat.simps)
      have here: "is_placeholder w (CreateDMVFiles_loop w d fs v (i + 1) ?b) (row_path d fs i)"
        "v \<ge> 16 \<Longrightarrow>
           is_placeholder w (CreateDMVFiles_loop w d fs v (i + 1) ?b) (row_path d fs i @ ''.json'')"
        using b(3,4) by (simp_all add: loop_keeps_placeholder)
      show ?thesis
        unfolding step
      proof (intro conjI allI impI)
        show "status (CreateDMVFiles_loop w d fs v (i + 1) ?b) = Running" using IH by simp
        show "dirs (CreateDMVFiles_loop w d fs v (i + 1) ?b) = dirs s" using IH b(2) by simp
      next
        fix j assume j: "i \<le> j \<and> 0 < j \<and> j < length fs"
        show "is_placeholder w (CreateDMVFiles_loop w d fs v (i + 1) ?b) (row_path d fs j)"
        proof (cases "j = i")
          case True then show ?thesis using here(1) by simp
        next
          case False with j IH show ?thesis by simp
        qed
      next
        fix j assume j: "i \<le> j \<and> 0 < j \<and> j < length fs" and v: "16 \<le> v"
        show "is_placeholder w (CreateDMVFiles_loop w d fs v (i + 1) ?b) (row_path d fs j @ ''.json'')"
        proof (cases "j = i")
          case True then show ?thesis using here(2) v by simp
        next
          case False with j v IH show ?thesis by simp
        qed
      qed
    qed
  qed
qed

subsection \<open>\<^verbatim>\<open>CreateDMVFiles\<close> by the outcome of the query\<close>

lemma CreateDMVFiles_rows:
  assumes "ExecuteQuery w ''SELECT name from sys.system_views where schema_id = 4''
             hostname username password (TYPE_TSV w) = (0, responseString)"
    and "1 < length (Split w responseString (CHR 0x0A))"
  shows "CreateDMVFiles w dumpDir servername hostname username password version s =
           CreateDMVFiles_loop w dumpDir (Split w responseString (CHR 0x0A)) version 0 s"
  using assms by (simp add: CreateDMVFiles_def Let_def)

lemma CreateDMVFiles_query_fails:
  assumes "fst (ExecuteQuery w ''SELECT name from sys.system_views where schema_id = 4''
             hostname username password (TYPE_TSV w)) \<noteq> 0"
  shows "CreateDMVFiles w dumpDir servername hostname username password version s =
           PrintMsg w (''Failed to query DMV list'' @ [CHR 0x0A]) [] s"
  using assms by (simp add: CreateDMVFiles_def Let_def case_prod_beta)

lemmas eval_defs = env_a_def srv_state_def sample_env_def sample_state_def split_rows_def
  sample_strerror_def CreateDMVFiles_def loop_zero loop_step loop_done loop_body_def
  CreateFile_def fopen_w_def setxattr_def KillSelf_def kill_self_def PrintMsg_def SIGHUP_def
  c_str_def Let_def diag_on_def diag_out_def ENOENT_def

section \<open>The claims\<close>

subsection \<open>C1: a placeholder file that cannot be created\<close>

text \<open>
  C1 as the specification has it: a failure to create one placeholder file is logged and is
  not fatal; the loop goes on and the process is not terminated. The code does otherwise:
  \<^verbatim>\<open>CreateFile\<close> calls \<^verbatim>\<open>KillSelf\<close> when \<^verbatim>\<open>fopen\<close> fails. In the sample system where \<open>a\<close>
  cannot be created and \<^verbatim>\<open>SIGHUP\<close> has its default action, the process is killed at \<open>a\<close>
  and \<open>b\<close>, which nothing would refuse, is never attempted.
\<close>

theorem placeholder_failure_not_fatal_counterexample:
  "status (CreateDMVFiles env_a ''/dump/srv'' ''srv'' ''10.0.0.1'' ''sa'' ''pw'' 15 srv_state)
     = Killed SIGHUP \<and>
   signals_sent (CreateDMVFiles env_a ''/dump/srv'' ''srv'' ''10.0.0.1'' ''sa'' ''pw'' 15 srv_state)
     = [SIGHUP] \<and>
   files (CreateDMVFiles env_a ''/dump/srv'' ''srv'' ''10.0.0.1'' ''sa'' ''pw'' 15 srv_state)
     ''/dump/srv/b'' = None"
  by (simp add: eval_defs)

text \<open>
  C1 as amended. When \<^verbatim>\<open>fopen\<close> fails for the placeholder of row \<open>i\<close>, the loop (entered at
  \<open>i\<close> in a running process) sends \<^verbatim>\<open>SIGHUP\<close> to the process itself, and, if \<^verbatim>\<open>PrintMsg\<close> writes
  at all, the first thing it writes is the message with the path and the \<^verbatim>\<open>errno\<close> text.
  If the signal's action is the default one, the process is killed there: no file and no
  directory has changed and no later row is attempted. If the signal is handled or
  ignored, \<^verbatim>\<open>KillSelf\<close> returns and the loop goes on with row \<open>i + 1\<close>.
\<close>

theorem CreateDMVFiles_loop_fopen_failure:
  assumes run: "status s = Running"
    and i: "0 < i" "i < length filenames"
    and path: "path = c_str (StringFormat ''%s/%s'' [c_str dumpDir, c_str (filenames ! i)])"
    and fail: "\<not> fst (fopen_w w path s)"
    and msg: "msg = ''Error creating file '' @ path @ '' '' @
                    strerror w (errno (snd (fopen_w w path s))) @ [CHR 0x0A]"
    and s': "s' = CreateDMVFiles_loop w dumpDir filenames version i s"
  shows "prefix (signals_sent s @ [SIGHUP]) (signals_sent s') \<and>
         (diag_on w \<longrightarrow> prefix (diag_out w s @ [msg]) (diag_out w s')) \<and>
         (sighup_disposition w = SIG_DFL \<longrightarrow>
            status s' = Killed SIGHUP \<and> files s' = files s \<and> dirs s' = dirs s \<and>
            signals_sent s' = signals_sent s @ [SIGHUP]) \<and>
         (sighup_disposition w \<noteq> SIG_DFL \<longrightarrow>
            s' = CreateDMVFiles_loop w dumpDir filenames version (i + 1)
                   (if version \<ge> 16
                    then CreateFile w (c_str (StringFormat ''%s.json'' [path])) (CreateFile w path s)
                    else CreateFile w path s))"
proof -
  let ?c = "CreateFile w path s"
  let ?b = "loop_body w dumpDir filenames version i s"
  have fmt: "StringFormat (''Error creating file %s %s'' @ [CHR 0x0A])
               [path, strerror w (errno (snd (fopen_w w path s)))] = msg"
    by (simp add: msg)
  have b_def: "?b = (if status ?c = Running \<and> version \<ge> 16
                     then CreateFile w (c_str (StringFormat ''%s.json'' [path])) ?c else ?c)"
    by (simp add: loop_body_def Let_def path c_str_idem del: StringFormat.simps)
  have c_b_sig: "prefix (signals_sent ?c) (signals_sent ?b)"
    unfolding b_def by (simp add: CreateFile_signals_prefix)
  have c_b_diag: "prefix (diag_out w ?c) (diag_out w ?b)"
    unfolding b_def by (simp add: CreateFile_diag_prefix)
  have b_s': "prefix (signals_sent ?b) (signals_sent s')" "prefix (diag_out w ?b) (diag_out w s')"
    using i by (simp_all add: s' loop_step loop_signals_prefix loop_diag_prefix)
  have sig: "prefix (signals_sent s @ [SIGHUP]) (signals_sent s')"
    using CreateFile_fopen_fails(1) [OF fail] c_b_sig b_s'(1) prefix_order.trans by blast
  have diag: "prefix (diag_out w s @ [msg]) (diag_out w s')" if "diag_on w"
    using CreateFile_fopen_fails(2) [OF fail that] c_b_diag b_s'(2) prefix_order.trans
    unfolding fmt by blast
  have dfl: "status s' = Killed SIGHUP \<and> files s' = files s \<and> dirs s' = dirs s \<and>
             signals_sent s' = signals_sent s @ [SIGHUP]"
    if d: "sighup_disposition w = SIG_DFL"
  proof -
    have c: "?c = KillSelf w (PrintMsg w (''Error creating file %s %s'' @ [CHR 0x0A])
                     [path, strerror w (errno (snd (fopen_w w path s)))] (snd (fopen_w w path s)))"
      by (rule CreateFile_fopen_fails(3) [OF fail d])
    have st: "status ?c = Killed SIGHUP" 
      by (subst c) (simp add: KillSelf_status d)
    have "?b = ?c" unfolding b_def using st by simp
    with i st have "s' = ?c" by (simp add: s' loop_step)
    moreover have "files ?c = files s" "dirs ?c = dirs s" "signals_sent ?c = signals_sent s @ [SIGHUP]"
      by (subst c, simp add: KillSelf_frame PrintMsg_frame fopen_w_frame fopen_w_fail_files [OF fail]
            del: StringFormat.simps)+
    ultimately show ?thesis using st by simp
  qed
  have ret: "s' = CreateDMVFiles_loop w dumpDir filenames version (i + 1)
                   (if version \<ge> 16
                    then CreateFile w (c_str (StringFormat ''%s.json'' [path])) (CreateFile w path s)
                    else CreateFile w path s)"
    if d: "sighup_disposition w \<noteq> SIG_DFL"
  proof -
    have "status ?c = Running" by (rule CreateFile_status_returns [OF d run])
    then have b: "?b = (if version \<ge> 16
                    then CreateFile w (c_str (StringFormat ''%s.json'' [path])) ?c else ?c)"
      unfolding b_def by simp
    have "status ?b = Running" by (rule loop_body_status_returns [OF d run])
    with i have "s' = CreateDMVFiles_loop w dumpDir filenames version (i + 1) ?b"
      by (simp add: s' loop_step)
    then show ?thesis unfolding b .
  qed
  from sig diag dfl ret show ?thesis by blast
qed

theorem CreateDMVFiles_loop_fopen_failure_witness:
  "status (CreateDMVFiles_loop env_a ''/dump/srv'' [''ColumnName'', ''a'', ''b''] 15 1 srv_state)
     = Killed SIGHUP \<and>
   prefix [''Error creating file /dump/srv/a Permission denied'' @ [CHR 0x0A]]
     (stderr_out (CreateDMVFiles_loop env_a ''/dump/srv'' [''ColumnName'', ''a'', ''b''] 15 1 srv_state)) \<and>
   CreateDMVFiles_loop (env_a\<lparr>sighup_disposition := SIG_HANDLER\<rparr>) ''/dump/srv''
       [''ColumnName'', ''a'', ''b''] 15 1 srv_state =
     CreateDMVFiles_loop (env_a\<lparr>sighup_disposition := SIG_HANDLER\<rparr>) ''/dump/srv''
       [''ColumnName'', ''a'', ''b''] 15 2
       (CreateFile (env_a\<lparr>sighup_disposition := SIG_HANDLER\<rparr>) ''/dump/srv/a'' srv_state)"
proof -
  let ?rows = "[''ColumnName'', ''a'', ''b'']"
  let ?h = "env_a\<lparr>sighup_disposition := SIG_HANDLER\<rparr>"
  have run: "status srv_state = Running"
    by (simp add: srv_state_def sample_state_def)
  have path: "''/dump/srv/a'' = c_str (StringFormat ''%s/%s'' [c_str ''/dump/srv'', c_str (?rows ! 1)])"
    by (simp add: c_str_def)
  have fail: "\<not> fst (fopen_w env_a ''/dump/srv/a'' srv_state)"
    "\<not> fst (fopen_w ?h ''/dump/srv/a'' srv_state)"
    by (simp_all add: fopen_w_def env_a_def sample_env_def)
  have env: "diag_on env_a" "sighup_disposition env_a = SIG_DFL" "sighup_disposition ?h \<noteq> SIG_DFL"
    "diag_out env_a = stderr_out"
    by (simp_all add: diag_on_def diag_out_def fun_eq_iff env_a_def sample_env_def)
  have msg: "''Error creating file '' @ ''/dump/srv/a'' @ '' '' @
               strerror env_a (errno (snd (fopen_w env_a ''/dump/srv/a'' srv_state))) @ [CHR 0x0A]
             = ''Error creating file /dump/srv/a Permission denied'' @ [CHR 0x0A]"
    by (simp add: fopen_w_def env_a_def sample_env_def sample_strerror_def)
  have stderr0: "stderr_out srv_state = []"
    by (simp add: srv_state_def sample_state_def)
  from CreateDMVFiles_loop_fopen_failure [OF run _ _ path fail(1) refl refl, of 15] env msg stderr0
  have "status (CreateDMVFiles_loop env_a ''/dump/srv'' ?rows 15 1 srv_state) = Killed SIGHUP"
    "prefix [''Error creating file /dump/srv/a Permission denied'' @ [CHR 0x0A]]
       (stderr_out (CreateDMVFiles_loop env_a ''/dump/srv'' ?rows 15 1 srv_state))"
    by simp_all
  moreover
  from CreateDMVFiles_loop_fopen_failure [OF run _ _ path fail(2) refl refl, of 15] env(3)
  have "CreateDMVFiles_loop ?h ''/dump/srv'' ?rows 15 1 srv_state =
        CreateDMVFiles_loop ?h ''/dump/srv'' ?rows 15 2 (CreateFile ?h ''/dump/srv/a'' srv_state)"
    by (simp add: numeral_2_eq_2)
  ultimately show ?thesis by simp
qed

subsection \<open>C2: a catalog answer without data rows\<close>

text \<open>
  C2 as the specification has it: when the split answer has no more than one row,
  materialization logs this and returns, creates no file and never escalates. The code has
  no such branch: it states \<^verbatim>\<open>assert(numEntries > 1)\<close> and runs the loop. On the header-only
  answer, a build with \<^verbatim>\<open>NDEBUG\<close> writes nothing to either sink although verbose output is
  on, and a build with assertions aborts the process.
\<close>

theorem degenerate_catalog_logged_counterexample:
  "diag_on (env_hdr\<lparr>NDEBUG := True\<rparr>) \<and>
   stderr_out (CreateDMVFiles (env_hdr\<lparr>NDEBUG := True\<rparr>) ''/dump/srv'' ''srv'' ''10.0.0.1'' ''sa'' ''pw'' 15 srv_state) = [] \<and>
   logfile_out (CreateDMVFiles (env_hdr\<lparr>NDEBUG := True\<rparr>) ''/dump/srv'' ''srv'' ''10.0.0.1'' ''sa'' ''pw'' 15 srv_state) = [] \<and>
   status (CreateDMVFiles env_hdr ''/dump/srv'' ''srv'' ''10.0.0.1'' ''sa'' ''pw'' 15 srv_state) = Aborted"
  by (simp add: env_hdr_def eval_defs assert_fail_def)

text \<open>
  C2 as amended. When the query succeeds and the split answer has no more than one row,
  \<^verbatim>\<open>CreateDMVFiles\<close> creates no file and no directory (in particular none from the header
  row), sends no signal and writes nothing through \<^verbatim>\<open>PrintMsg\<close>. Built with \<^verbatim>\<open>NDEBUG\<close> it
  returns with the state unchanged; built with assertions, the failed assertion writes its
  diagnostic to the standard error stream and aborts the process.
\<close>

theorem CreateDMVFiles_degenerate:
  assumes q: "ExecuteQuery w ''SELECT name from sys.system_views where schema_id = 4''
                hostname username password (TYPE_TSV w) = (0, responseString)"
    and n: "\<not> length (Split w responseString (CHR 0x0A)) > 1"
    and s': "s' = CreateDMVFiles w dumpDir servername hostname username password version s"
  shows "files s' = files s \<and> dirs s' = dirs s \<and> signals_sent s' = signals_sent s \<and>
         logfile_out s' = logfile_out s \<and>
         (NDEBUG w \<longrightarrow> s' = s) \<and>
         (\<not> NDEBUG w \<longrightarrow>
            status s' = Aborted \<and>
            stderr_out s' = stderr_out s @ [''Assertion `numEntries > 1' failed.'' @ [CHR 0x0A]])"
proof -
  let ?fs = "Split w responseString (CHR 0x0A)"
  have loop: "CreateDMVFiles_loop w dumpDir ?fs version 0 s = s"
  proof (cases "0 < length ?fs")
    case True
    with n have "\<not> 1 < length ?fs" by simp
    with True show ?thesis by (simp add: loop_zero loop_done)
  next
    case False
    then show ?thesis by (simp add: loop_done)
  qed
  have "s' = (if \<not> NDEBUG w then assert_fail ''numEntries > 1'' s else s)"
    using q n loop by (simp add: s' CreateDMVFiles_def Let_def)
  then show ?thesis by (simp add: assert_fail_def)
qed

theorem CreateDMVFiles_degenerate_witness:
  "CreateDMVFiles (env_hdr\<lparr>NDEBUG := True\<rparr>) ''/dump/srv'' ''srv'' ''10.0.0.1'' ''sa'' ''pw'' 16 srv_state
     = srv_state \<and>
   files (CreateDMVFiles env_hdr ''/dump/srv'' ''srv'' ''10.0.0.1'' ''sa'' ''pw'' 16 srv_state)
     = files srv_state \<and>
   status (CreateDMVFiles env_hdr ''/dump/srv'' ''srv'' ''10.0.0.1'' ''sa'' ''pw'' 16 srv_state)
     = Aborted"
proof -
  have q: "ExecuteQuery (env_hdr\<lparr>NDEBUG := b\<rparr>) ''SELECT name from sys.system_views where schema_id = 4''
             ''10.0.0.1'' ''sa'' ''pw'' (TYPE_TSV (env_hdr\<lparr>NDEBUG := b\<rparr>)) = (0, ''ColumnName'')" for b
    by (simp add: env_hdr_def sample_env_def)
  have n: "\<not> length (Split (env_hdr\<lparr>NDEBUG := b\<rparr>) ''ColumnName'' (CHR 0x0A)) > 1" for b
    by (simp add: env_hdr_def sample_env_def split_rows_def)
  have e: "env_hdr\<lparr>NDEBUG := False\<rparr> = env_hdr" "NDEBUG (env_hdr\<lparr>NDEBUG := True\<rparr>)" "\<not> NDEBUG env_hdr"
    by (simp_all add: env_hdr_def sample_env_def)
  from CreateDMVFiles_degenerate [OF q n refl, of True "''/dump/srv''" "''srv''" 16 srv_state]
       CreateDMVFiles_degenerate [OF q n refl, of False "''/dump/srv''" "''srv''" 16 srv_state]
       e
  show ?thesis by simp
qed

subsection \<open>C3: the rows \<open>ColumnName\<close>, \<open>a\<close>, \<open>b\<close>\<close>

text \<open>
  C3. In a running process, when the query succeeds with the rows \<open>ColumnName\<close>, \<open>a\<close>, \<open>b\<close>
  and the system refuses none of the creations, \<^verbatim>\<open>CreateDMVFiles\<close> leaves exactly the files
  of \<open>T\<close> created: \<open>a\<close> and \<open>b\<close> in the dump directory when the version is below 16, and
  \<open>a\<close>, \<open>a.json\<close>, \<open>b\<close>, \<open>b.json\<close> when it is 16 or more. Each of them is empty and carries
  the attribute with an empty value; every other path (the one named after the header row
  among them) is as before, no directory is added, no signal is sent, nothing is printed.
\<close>

theorem CreateDMVFiles_header_a_b:
  assumes run: "status s = Running"
    and q: "ExecuteQuery w ''SELECT name from sys.system_views where schema_id = 4''
              hostname username password (TYPE_TSV w) = (0, responseString)"
    and rows: "Split w responseString (CHR 0x0A) = [''ColumnName'', ''a'', ''b'']"
    and T: "T = (if version \<ge> 16
                 then {c_str dumpDir @ ''/a'', c_str dumpDir @ ''/a.json'',
                       c_str dumpDir @ ''/b'', c_str dumpDir @ ''/b.json''}
                 else {c_str dumpDir @ ''/a'', c_str dumpDir @ ''/b''})"
    and ok: "\<forall>p\<in>T. fopen_fault w p = None \<and> setxattr_fault w p = None \<and> p \<notin> dirs s"
    and s': "s' = CreateDMVFiles w dumpDir servername hostname username password version s"
  shows "(\<forall>p\<in>T. \<exists>f. files s' p = Some f \<and> content f = [] \<and>
                     xattrs f (g_LocallyGeneratedFiles w) = Some []) \<and>
         (\<forall>p. p \<notin> T \<longrightarrow> files s' p = files s p) \<and>
         dirs s' = dirs s \<and> status s' = Running \<and> signals_sent s' = signals_sent s \<and>
         stderr_out s' = stderr_out s \<and> logfile_out s' = logfile_out s"
proof -
  let ?fs = "[''ColumnName'', ''a'', ''b'']"
  let ?a = "c_str dumpDir @ ''/a''" and ?b = "c_str dumpDir @ ''/b''"
  let ?aj = "c_str dumpDir @ ''/a.json''" and ?bj = "c_str dumpDir @ ''/b.json''"
  have cs: "c_str ''a'' = ''a''" "c_str ''b'' = ''b''" by (simp_all add: c_str_def)
  have e3: "CreateDMVFiles_loop w dumpDir ?fs version (Suc (Suc (Suc 0))) t = t" for t
    by (simp add: loop_done)
  have e2: "CreateDMVFiles_loop w dumpDir ?fs version (Suc (Suc 0)) t =
              loop_body w dumpDir ?fs version (Suc (Suc 0)) t" for t
    using loop_step [of "Suc (Suc 0)" ?fs w dumpDir version t] e3 by simp
  have e1: "CreateDMVFiles_loop w dumpDir ?fs version (Suc 0) t =
              (if status (loop_body w dumpDir ?fs version (Suc 0) t) = Running
               then loop_body w dumpDir ?fs version (Suc (Suc 0))
                      (loop_body w dumpDir ?fs version (Suc 0) t)
               else loop_body w dumpDir ?fs version (Suc 0) t)" for t
    using loop_step [of "Suc 0" ?fs w dumpDir version t] e2 by simp
  have "CreateDMVFiles_loop w dumpDir ?fs version 0 s =
        CreateDMVFiles_loop w dumpDir ?fs version (Suc 0) s"
    using loop_zero [of ?fs w dumpDir version s] by simp
  with q rows have start: "s' = CreateDMVFiles_loop w dumpDir ?fs version (Suc 0) s"
    by (simp add: s' CreateDMVFiles_def Let_def)
  show ?thesis
  proof (cases "version \<ge> 16")
    case False
    then have v: "version < 16" by simp
    from ok False have oka: "fopen_fault w ?a = None" "setxattr_fault w ?a = None" "?a \<notin> dirs s"
      and okb: "fopen_fault w ?b = None" "setxattr_fault w ?b = None" "?b \<notin> dirs s"
      by (simp_all add: T)
    let ?s1 = "CreateFile w ?a s"
    note p1 = CreateFile_ok_props [OF oka run]
    have okb1: "?b \<notin> dirs ?s1" using okb p1(2) by simp
    note p2 = CreateFile_ok_props [OF okb(1,2) okb1 p1(1)]
    have b1: "loop_body w dumpDir ?fs version (Suc 0) s = ?s1"
      using loop_body_ok_low [OF v run, of w dumpDir ?fs "Suc 0"] oka by (simp add: cs)
    have b2: "loop_body w dumpDir ?fs version (Suc (Suc 0)) ?s1 = CreateFile w ?b ?s1"
      using loop_body_ok_low [OF v p1(1), of w dumpDir ?fs "Suc (Suc 0)"] okb okb1
      by (simp add: cs)
    have "s' = CreateFile w ?b ?s1"
      unfolding start e1 b1 by (simp add: b2 p1(1))
    with p1 p2 False show ?thesis by (simp add: T)
  next
    case True
    from ok True have oka: "fopen_fault w ?a = None" "setxattr_fault w ?a = None" "?a \<notin> dirs s"
      and okaj: "fopen_fault w ?aj = None" "setxattr_fault w ?aj = None" "?aj \<notin> dirs s"
      and okb: "fopen_fault w ?b = None" "setxattr_fault w ?b = None" "?b \<notin> dirs s"
      and okbj: "fopen_fault w ?bj = None" "setxattr_fault w ?bj = None" "?bj \<notin> dirs s"
      by (simp_all add: T)
    let ?s1 = "CreateFile w ?a s"
    note p1 = CreateFile_ok_props [OF oka run]
    let ?s2 = "CreateFile w ?aj ?s1"
    have d1: "?aj \<notin> dirs ?s1" using okaj p1(2) by simp
    note p2 = CreateFile_ok_props [OF okaj(1,2) d1 p1(1)]
    let ?s3 = "CreateFile w ?b ?s2"
    have d2: "?b \<notin> dirs ?s2" using okb p1(2) p2(2) by simp
    note p3 = CreateFile_ok_props [OF okb(1,2) d2 p2(1)]
    let ?s4 = "CreateFile w ?bj ?s3"
    have d3: "?bj \<notin> dirs ?s3" using okbj p1(2) p2(2) p3(2) by simp
    note p4 = CreateFile_ok_props [OF okbj(1,2) d3 p3(1)]
    have b1: "loop_body w dumpDir ?fs version (Suc 0) s = ?s2"
      using loop_body_ok_high [OF True run, of w dumpDir ?fs "Suc 0"] oka by (simp add: cs)
    have b2: "loop_body w dumpDir ?fs version (Suc (Suc 0)) ?s2 = ?s4"
      using loop_body_ok_high [OF True p2(1), of w dumpDir ?fs "Suc (Suc 0)"] okb d2
      by (simp add: cs)
    have "s' = ?s4"
      unfolding start e1 b1 by (simp add: b2 p2(1))
    with p1 p2 p3 p4 True show ?thesis by (simp add: T)
  qed
qed

theorem CreateDMVFiles_header_a_b_witness:
  "(\<exists>f. files (CreateDMVFiles sample_env ''/dump/srv'' ''srv'' ''10.0.0.1'' ''sa'' ''pw'' 15 srv_state)
           ''/dump/srv/a'' = Some f \<and> content f = [] \<and> xattrs f ''user.dbfs.local'' = Some []) \<and>
   files (CreateDMVFiles sample_env ''/dump/srv'' ''srv'' ''10.0.0.1'' ''sa'' ''pw'' 15 srv_state)
     ''/dump/srv/a.json'' = None \<and>
   files (CreateDMVFiles sample_env ''/dump/srv'' ''srv'' ''10.0.0.1'' ''sa'' ''pw'' 15 srv_state)
     ''/dump/srv/ColumnName'' = None \<and>
   (\<exists>f. files (CreateDMVFiles sample_env ''/dump/srv'' ''srv'' ''10.0.0.1'' ''sa'' ''pw'' 16 srv_state)
           ''/dump/srv/b.json'' = Some f \<and> content f = [] \<and> xattrs f ''user.dbfs.local'' = Some []) \<and>
   files (CreateDMVFiles sample_env ''/dump/srv'' ''srv'' ''10.0.0.1'' ''sa'' ''pw'' 16 srv_state)
     ''/dump/srv/ColumnName'' = None"
proof -
  have run: "status srv_state = Running"
    by (simp add: srv_state_def sample_state_def)
  have q: "ExecuteQuery sample_env ''SELECT name from sys.system_views where schema_id = 4''
             ''10.0.0.1'' ''sa'' ''pw'' (TYPE_TSV sample_env)
           = (0, ''ColumnName'' @ [CHR 0x0A] @ ''a'' @ [CHR 0x0A] @ ''b'')"
    by (simp add: sample_env_def)
  have rows: "Split sample_env (''ColumnName'' @ [CHR 0x0A] @ ''a'' @ [CHR 0x0A] @ ''b'') (CHR 0x0A)
              = [''ColumnName'', ''a'', ''b'']"
    by (simp add: sample_env_def split_rows_def)
  have cs: "c_str ''/dump/srv'' = ''/dump/srv''"
    by (simp add: c_str_def)
  have env: "fopen_fault sample_env = (\<lambda>p. None)" "setxattr_fault sample_env = (\<lambda>p. None)"
    "g_LocallyGeneratedFiles sample_env = ''user.dbfs.local''"
    "dirs srv_state = {''/dump/'', ''/dump/srv''}" "files srv_state = Map.empty"
    by (simp_all add: sample_env_def srv_state_def sample_state_def)
  from CreateDMVFiles_header_a_b [OF run q rows refl _ refl, of 15 "''/dump/srv''" "''srv''"]
       CreateDMVFiles_header_a_b [OF run q rows refl _ refl, of 16 "''/dump/srv''" "''srv''"]
  show ?thesis
    by (simp add: cs env)
qed

subsection \<open>C4: whether \<^verbatim>\<open>KillSelf\<close> returns\<close>

text \<open>
  C4 as the specification has it: the escalation never returns, so no statement after it
  in a caller is ever executed. \<^verbatim>\<open>KillSelf\<close> is one call of \<^verbatim>\<open>kill(getpid(), SIGHUP)\<close>: it
  comes back whenever the signal does not end the process. With \<^verbatim>\<open>SIGHUP\<close> ignored or
  handled the process is still running after \<^verbatim>\<open>KillSelf\<close>, and \<^verbatim>\<open>CreateFile\<close>, after the
  escalation for the failed \<^verbatim>\<open>fopen\<close>, goes on to \<^verbatim>\<open>setxattr\<close>, whose failure is printed and
  escalated a second time.
\<close>

theorem KillSelf_returns_counterexample:
  "status (KillSelf (sample_env\<lparr>sighup_disposition := SIG_IGN\<rparr>) sample_state) = Running \<and>
   status (KillSelf env_handled srv_state) = Running \<and>
   signals_sent (CreateFile env_handled ''/dump/srv/a'' srv_state) = [SIGHUP, SIGHUP] \<and>
   stderr_out (CreateFile env_handled ''/dump/srv/a'' srv_state) =
     [''Error creating file /dump/srv/a Permission denied'' @ [CHR 0x0A],
      ''Error setting extended attributes for file /dump/srv/a : No such file or directory''
        @ [CHR 0x0A]]"
  by (simp add: env_handled_def eval_defs)

text \<open>
  C4 as amended. \<^verbatim>\<open>KillSelf\<close> sends \<^verbatim>\<open>SIGHUP\<close> to the process itself and changes no file or
  directory. It does not return exactly when the signal has its default action, which
  kills the process in the call; when the signal is ignored or handled, \<^verbatim>\<open>KillSelf\<close>
  returns and the caller's next statement runs.
\<close>

theorem KillSelf_returns_iff:
  assumes "status s = Running"
  shows "signals_sent (KillSelf w s) = signals_sent s @ [SIGHUP] \<and>
         (status (KillSelf w s) = Running) = (sighup_disposition w \<noteq> SIG_DFL) \<and>
         (sighup_disposition w = SIG_DFL \<longrightarrow> status (KillSelf w s) = Killed SIGHUP) \<and>
         files (KillSelf w s) = files s \<and> dirs (KillSelf w s) = dirs s"
  using assms by (simp add: KillSelf_frame KillSelf_status)

theorem KillSelf_returns_iff_witness:
  "status (KillSelf sample_env sample_state) = Killed SIGHUP \<and>
   status (KillSelf env_handled sample_state) = Running \<and>
   signals_sent (KillSelf env_handled sample_state) = [SIGHUP]"
proof -
  have run: "status sample_state = Running" by (simp add: sample_state_def)
  have env: "sighup_disposition sample_env = SIG_DFL" "sighup_disposition env_handled = SIG_HANDLER"
    "signals_sent sample_state = []"
    by (simp_all add: env_handled_def env_a_def sample_env_def sample_state_def)
  from KillSelf_returns_iff [OF run, of sample_env] KillSelf_returns_iff [OF run, of env_handled]
  show ?thesis by (simp add: env)
qed

subsection \<open>C5: the server's directory cannot be created\<close>

text \<open>
  C5 as the specification has it: when the server's directory cannot be created, for a
  reason other than an existing directory, the process is terminated and no file is
  created. The escalation is \<^verbatim>\<open>KillSelf\<close>, which ends the process only where \<^verbatim>\<open>SIGHUP\<close> has
  its default action. In the sample system where \<^verbatim>\<open>mkdir\<close> is refused with \<^verbatim>\<open>EACCES\<close> and
  \<^verbatim>\<open>SIGHUP\<close> is ignored, the signal is sent and \<^verbatim>\<open>CreateDbfsFiles\<close> returns in a running
  process.
\<close>

theorem root_mkdir_failure_terminates_counterexample:
  "fst (mkdir env_nomkdir_ign (c_str (CalculateDumpPath env_nomkdir_ign ''srv'')) sample_state) \<noteq> 0 \<and>
   errno (snd (mkdir env_nomkdir_ign (c_str (CalculateDumpPath env_nomkdir_ign ''srv'')) sample_state))
     \<noteq> EEXIST \<and>
   signals_sent (CreateDbfsFiles env_nomkdir_ign ''srv'' ''10.0.0.1'' ''sa'' ''pw'' 16 sample_state)
     = [SIGHUP] \<and>
   status (CreateDbfsFiles env_nomkdir_ign ''srv'' ''10.0.0.1'' ''sa'' ''pw'' 16 sample_state)
     = Running"
  by (simp add: env_nomkdir_ign_def env_nomkdir_def sample_env_def sample_state_def
        CreateDbfsFiles_def CalculateDumpPath_def mkdir_def c_str_def EEXIST_def Let_def
        KillSelf_def kill_self_def PrintMsg_def SIGHUP_def)

text \<open>
  C5 as amended. When \<^verbatim>\<open>mkdir\<close> fails for the server's directory (for whatever reason: the
  code does not look at \<^verbatim>\<open>errno\<close>, so this holds for every reason other than an existing
  directory, and for that one too), \<^verbatim>\<open>CreateDbfsFiles\<close> prints the two messages and calls
  \<^verbatim>\<open>KillSelf\<close>, and no file and no directory is created: neither the custom-query step nor
  the DMV step runs. \<^verbatim>\<open>SIGHUP\<close> is sent; the process is killed there when the signal has
  its default action, and otherwise \<^verbatim>\<open>CreateDbfsFiles\<close> returns with the process as it
  was.
\<close>

theorem CreateDbfsFiles_root_mkdir_fails:
  assumes fail: "fst (mkdir w (c_str (CalculateDumpPath w servername)) s) \<noteq> 0"
    and s1: "s1 = snd (mkdir w (c_str (CalculateDumpPath w servername)) s)"
    and s': "s' = CreateDbfsFiles w servername hostname username password version s"
  shows "files s' = files s \<and> dirs s' = dirs s \<and>
         signals_sent s' = signals_sent s @ [SIGHUP] \<and>
         (sighup_disposition w = SIG_DFL \<longrightarrow> status s' = Killed SIGHUP) \<and>
         (sighup_disposition w \<noteq> SIG_DFL \<longrightarrow> status s' = status s) \<and>
         (diag_on w \<longrightarrow>
            diag_out w s' = diag_out w s @
              [''mkdir failed for '' @ c_str (CalculateDumpPath w servername) @ ''- '' @
                 strerror w (errno s1) @ [CHR 0x0A],
               ''There was an error creating the folders to hold the server DMV files. Exiting.''
                 @ [CHR 0x0A]])"
proof -
  let ?fpath = "CalculateDumpPath w servername"
  let ?m1 = "PrintMsg w (''mkdir failed for %s- %s'' @ [CHR 0x0A])
               [c_str ?fpath, strerror w (errno s1)] s1"
  let ?m2 = "PrintMsg w
               (''There was an error creating the folders to hold the server DMV files. Exiting.''
                @ [CHR 0x0A]) [] ?m1"
  have eq: "s' = KillSelf w ?m2"
    using fail by (simp add: s' s1 CreateDbfsFiles_def Let_def case_prod_beta del: StringFormat.simps)
  have f1: "StringFormat (''mkdir failed for %s- %s'' @ [CHR 0x0A]) [c_str ?fpath, strerror w (errno s1)]
            = ''mkdir failed for '' @ c_str ?fpath @ ''- '' @ strerror w (errno s1) @ [CHR 0x0A]"
    by simp
  have f2: "StringFormat
              (''There was an error creating the folders to hold the server DMV files. Exiting.''
               @ [CHR 0x0A]) []
            = ''There was an error creating the folders to hold the server DMV files. Exiting.''
               @ [CHR 0x0A]"
    by simp
  have "files s' = files s" "dirs s' = dirs s" "signals_sent s' = signals_sent s @ [SIGHUP]"
    unfolding eq using fail
    by (simp_all add: KillSelf_frame PrintMsg_frame mkdir_frame mkdir_fail_dirs s1
          del: StringFormat.simps)
  moreover have "status s' = Killed SIGHUP" if "sighup_disposition w = SIG_DFL"
    unfolding eq using that by (simp add: KillSelf_status)
  moreover have "status s' = status s" if "sighup_disposition w \<noteq> SIG_DFL"
    unfolding eq using that
    by (simp add: KillSelf_status PrintMsg_frame mkdir_frame s1 del: StringFormat.simps)
  moreover have "diag_out w s' = diag_out w s @
              [''mkdir failed for '' @ c_str ?fpath @ ''- '' @ strerror w (errno s1) @ [CHR 0x0A],
               ''There was an error creating the folders to hold the server DMV files. Exiting.''
                 @ [CHR 0x0A]]" if "diag_on w"
    unfolding eq KillSelf_frame PrintMsg_diag [OF that] f1 f2
    by (simp add: s1 mkdir_frame)
  ultimately show ?thesis by blast
qed

theorem CreateDbfsFiles_root_mkdir_fails_witness:
  "files (CreateDbfsFiles env_nomkdir ''srv'' ''10.0.0.1'' ''sa'' ''pw'' 16 sample_state) = Map.empty \<and>
   dirs (CreateDbfsFiles env_nomkdir ''srv'' ''10.0.0.1'' ''sa'' ''pw'' 16 sample_state) = {''/dump/''} \<and>
   signals_sent (CreateDbfsFiles env_nomkdir ''srv'' ''10.0.0.1'' ''sa'' ''pw'' 16 sample_state) = [SIGHUP] \<and>
   status (CreateDbfsFiles env_nomkdir ''srv'' ''10.0.0.1'' ''sa'' ''pw'' 16 sample_state) = Killed SIGHUP \<and>
   stderr_out (CreateDbfsFiles env_nomkdir ''srv'' ''10.0.0.1'' ''sa'' ''pw'' 16 sample_state) =
     [''mkdir failed for /dump/srv- Permission denied'' @ [CHR 0x0A],
      ''There was an error creating the folders to hold the server DMV files. Exiting.'' @ [CHR 0x0A]] \<and>
   files (CreateDbfsFiles env_nomkdir_ign ''srv'' ''10.0.0.1'' ''sa'' ''pw'' 16 sample_state) = Map.empty \<and>
   status (CreateDbfsFiles env_nomkdir_ign ''srv'' ''10.0.0.1'' ''sa'' ''pw'' 16 sample_state) = Running"
proof -
  have p: "c_str (CalculateDumpPath env_nomkdir ''srv'') = ''/dump/srv''"
    "c_str (CalculateDumpPath env_nomkdir_ign ''srv'') = ''/dump/srv''"
    by (simp_all add: CalculateDumpPath_def c_str_def env_nomkdir_ign_def env_nomkdir_def
          sample_env_def)
  have m: "mkdir env_nomkdir ''/dump/srv'' sample_state = (- 1, sample_state\<lparr>errno := 13\<rparr>)"
    "mkdir env_nomkdir_ign ''/dump/srv'' sample_state = (- 1, sample_state\<lparr>errno := 13\<rparr>)"
    by (simp_all add: mkdir_def env_nomkdir_ign_def env_nomkdir_def sample_env_def sample_state_def)
  have fail: "fst (mkdir env_nomkdir (c_str (CalculateDumpPath env_nomkdir ''srv'')) sample_state) \<noteq> 0"
    "fst (mkdir env_nomkdir_ign (c_str (CalculateDumpPath env_nomkdir_ign ''srv'')) sample_state) \<noteq> 0"
    by (simp_all add: p m)
  have env: "diag_on env_nomkdir" "sighup_disposition env_nomkdir = SIG_DFL"
    "diag_out env_nomkdir = stderr_out" "strerror env_nomkdir 13 = ''Permission denied''"
    "sighup_disposition env_nomkdir_ign = SIG_IGN"
    by (simp_all add: diag_on_def diag_out_def fun_eq_iff env_nomkdir_ign_def env_nomkdir_def
          sample_env_def sample_strerror_def)
  have st: "files sample_state = Map.empty" "dirs sample_state = {''/dump/''}"
    "signals_sent sample_state = []" "stderr_out sample_state = []" "status sample_state = Running"
    by (simp_all add: sample_state_def)
  from CreateDbfsFiles_root_mkdir_fails [OF fail(1) refl refl, of "''10.0.0.1''" "''sa''" "''pw''" 16]
  have a: "files (CreateDbfsFiles env_nomkdir ''srv'' ''10.0.0.1'' ''sa'' ''pw'' 16 sample_state) = Map.empty \<and>
   dirs (CreateDbfsFiles env_nomkdir ''srv'' ''10.0.0.1'' ''sa'' ''pw'' 16 sample_state) = {''/dump/''} \<and>
   signals_sent (CreateDbfsFiles env_nomkdir ''srv'' ''10.0.0.1'' ''sa'' ''pw'' 16 sample_state) = [SIGHUP] \<and>
   status (CreateDbfsFiles env_nomkdir ''srv'' ''10.0.0.1'' ''sa'' ''pw'' 16 sample_state) = Killed SIGHUP \<and>
   stderr_out (CreateDbfsFiles env_nomkdir ''srv'' ''10.0.0.1'' ''sa'' ''pw'' 16 sample_state) =
     [''mkdir failed for /dump/srv- Permission denied'' @ [CHR 0x0A],
      ''There was an error creating the folders to hold the server DMV files. Exiting.'' @ [CHR 0x0A]]"
    by (simp add: env st p m)
  from CreateDbfsFiles_root_mkdir_fails [OF fail(2) refl refl, of "''10.0.0.1''" "''sa''" "''pw''" 16]
  have b: "files (CreateDbfsFiles env_nomkdir_ign ''srv'' ''10.0.0.1'' ''sa'' ''pw'' 16 sample_state) = Map.empty \<and>
   status (CreateDbfsFiles env_nomkdir_ign ''srv'' ''10.0.0.1'' ''sa'' ''pw'' 16 sample_state) = Running"
    by (simp add: env st)
  from a b show ?thesis by blast
qed

subsection \<open>C6: the dump path\<close>

text \<open>
  C6. For every path \<open>P\<close>, \<^verbatim>\<open>CalculateDumpPath\<close> is the dump directory's path followed by
  \<open>P\<close>, byte for byte: the result is as long as both together and \<open>P\<close> is read back from
  it unchanged. The function takes no state and has no failing case.
\<close>

theorem CalculateDumpPath_concat:
  "CalculateDumpPath w P = m_dumpPath (g_UserPaths w) @ P \<and>
   length (CalculateDumpPath w P) = length (m_dumpPath (g_UserPaths w)) + length P \<and>
   drop (length (m_dumpPath (g_UserPaths w))) (CalculateDumpPath w P) = P"
  by (simp add: CalculateDumpPath_def)

subsection \<open>C7: the custom-query directory cannot be created\<close>

text \<open>
  C7. In a running process where the server's directory has been created and \<^verbatim>\<open>mkdir\<close> fails
  for the custom-query directory, \<^verbatim>\<open>CreateCustomQueriesDir\<close> only prints the failure (with
  the path and the \<^verbatim>\<open>errno\<close> text): \<^verbatim>\<open>CreateCustomQueriesOutputFiles\<close> is not called, no
  file is created, no signal is sent and the process keeps running. \<^verbatim>\<open>CreateDbfsFiles\<close>
  then goes on with \<^verbatim>\<open>CreateDMVFiles\<close> for the same server, and that step does its work:
  the catalog query is made; when it fails, its failure is what is printed next; when it
  succeeds with more than one row and the system refuses no creation, the process is still
  running at the end and every row after the header has its placeholder (and the
  \<open>.json\<close> one from version 16 on) in the server's directory.
\<close>

theorem CreateDbfsFiles_custom_dir_fails:
  assumes run: "status s = Running"
    and fpath: "fpath = CalculateDumpPath w servername"
    and root: "fst (mkdir w (c_str fpath) s) = 0"
    and s1: "s1 = snd (mkdir w (c_str fpath) s)"
    and cq: "cq = c_str (fpath @ LINUX_PATH_DELIM w @ CUSTOM_QUERY_FOLDER_NAME w)"
    and fail: "fst (mkdir w cq s1) \<noteq> 0"
    and s2: "s2 = CreateCustomQueriesDir w fpath servername s1"
    and q: "q = ExecuteQuery w ''SELECT name from sys.system_views where schema_id = 4''
                  hostname username password (TYPE_TSV w)"
    and rows: "rows = Split w (snd q) (CHR 0x0A)"
    and s': "s' = CreateDbfsFiles w servername hostname username password version s"
  shows "s2 = PrintMsg w (''mkdir failed for %s- %s'' @ [CHR 0x0A])
                [cq, strerror w (errno (snd (mkdir w cq s1)))] (snd (mkdir w cq s1)) \<and>
         status s2 = Running \<and> signals_sent s2 = signals_sent s \<and>
         files s2 = files s \<and> dirs s2 = dirs s1 \<and>
         (diag_on w \<longrightarrow>
            diag_out w s2 = diag_out w s @
              [''mkdir failed for '' @ cq @ ''- '' @
                 strerror w (errno (snd (mkdir w cq s1))) @ [CHR 0x0A]]) \<and>
         s' = CreateDMVFiles w fpath servername hostname username password version s2 \<and>
         (fst q \<noteq> 0 \<longrightarrow> s' = PrintMsg w (''Failed to query DMV list'' @ [CHR 0x0A]) [] s2) \<and>
         (fst q = 0 \<and> 1 < length rows \<and>
          (\<forall>p. fopen_fault w p = None \<and> setxattr_fault w p = None) \<and>
          (\<forall>j. 0 < j \<and> j < length rows \<longrightarrow>
                 row_path fpath rows j \<notin> dirs s \<and> row_path fpath rows j @ ''.json'' \<notin> dirs s)
          \<longrightarrow> status s' = Running \<and>
              (\<forall>j. 0 < j \<and> j < length rows \<longrightarrow>
                 is_placeholder w s' (row_path fpath rows j) \<and>
                 (version \<ge> 16 \<longrightarrow> is_placeholder w s' (row_path fpath rows j @ ''.json''))))"
proof -
  let ?m = "snd (mkdir w cq s1)"
  have eq: "s2 = PrintMsg w (''mkdir failed for %s- %s'' @ [CHR 0x0A])
                   [cq, strerror w (errno ?m)] ?m"
    using fail
    by (simp add: s2 CreateCustomQueriesDir_def Let_def case_prod_beta cq del: StringFormat.simps)
  have fmt: "StringFormat (''mkdir failed for %s- %s'' @ [CHR 0x0A]) [cq, strerror w (errno ?m)]
             = ''mkdir failed for '' @ cq @ ''- '' @ strerror w (errno ?m) @ [CHR 0x0A]"
    by simp
  have st: "status s2 = Running" "signals_sent s2 = signals_sent s" "files s2 = files s"
    "dirs s2 = dirs s1"
    unfolding eq using fail run
    by (simp_all add: PrintMsg_frame mkdir_frame mkdir_fail_dirs s1 del: StringFormat.simps)
  have dg: "diag_out w s2 = diag_out w s @
              [''mkdir failed for '' @ cq @ ''- '' @ strerror w (errno ?m) @ [CHR 0x0A]]"
    if "diag_on w"
    unfolding eq PrintMsg_diag [OF that] fmt by (simp add: s1 mkdir_frame)
  have dmv: "s' = CreateDMVFiles w fpath servername hostname username password version s2"
    using root st(1)
    by (simp add: s' CreateDbfsFiles_def Let_def case_prod_beta fpath [symmetric] s1 [symmetric]
          s2 [symmetric])
  have qf: "s' = PrintMsg w (''Failed to query DMV list'' @ [CHR 0x0A]) [] s2" if "fst q \<noteq> 0"
    unfolding dmv using that unfolding q by (rule CreateDMVFiles_query_fails)
  have ok: "status s' = Running \<and>
              (\<forall>j. 0 < j \<and> j < length rows \<longrightarrow>
                 is_placeholder w s' (row_path fpath rows j) \<and>
                 (version \<ge> 16 \<longrightarrow> is_placeholder w s' (row_path fpath rows j @ ''.json'')))"
    if q0: "fst q = 0" and n: "1 < length rows"
      and nf: "\<forall>p. fopen_fault w p = None \<and> setxattr_fault w p = None"
      and nd: "\<forall>j. 0 < j \<and> j < length rows \<longrightarrow>
                 row_path fpath rows j \<notin> dirs s \<and> row_path fpath rows j @ ''.json'' \<notin> dirs s"
  proof -
    have qq: "ExecuteQuery w ''SELECT name from sys.system_views where schema_id = 4''
                hostname username password (TYPE_TSV w) = (0, snd q)"
      using q0 unfolding q by (simp add: prod_eq_iff)
    have loop: "s' = CreateDMVFiles_loop w fpath rows version 0 s2"
      unfolding dmv rows using n unfolding rows by (rule CreateDMVFiles_rows [OF qq])
    have d2: "dirs s2 = insert (c_str fpath) (dirs s)"
      using st(4) mkdir_ok_dirs [OF root] by (simp add: s1)
    have nd2: "row_path fpath rows j \<notin> dirs s2 \<and> row_path fpath rows j @ ''.json'' \<notin> dirs s2"
      if "0 < j" "j < length rows" for j
      using nd that by (simp add: d2 row_path_def)
    from loop_no_fault [of w rows fpath s2 version 0, OF _ _ nd2 st(1)] nf
    show ?thesis unfolding loop by simp
  qed
  from eq st dg dmv qf ok show ?thesis by blast
qed

theorem CreateDbfsFiles_custom_dir_fails_witness:
  "status (CreateCustomQueriesDir env_nocq ''/dump/srv'' ''srv''
             (snd (mkdir env_nocq ''/dump/srv'' sample_state))) = Running \<and>
   stderr_out (CreateCustomQueriesDir env_nocq ''/dump/srv'' ''srv''
             (snd (mkdir env_nocq ''/dump/srv'' sample_state)))
     = [''mkdir failed for /dump/srv/customQueries- Permission denied'' @ [CHR 0x0A]] \<and>
   status (CreateDbfsFiles env_nocq ''srv'' ''10.0.0.1'' ''sa'' ''pw'' 16 sample_state) = Running \<and>
   is_placeholder env_nocq (CreateDbfsFiles env_nocq ''srv'' ''10.0.0.1'' ''sa'' ''pw'' 16 sample_state)
     ''/dump/srv/a'' \<and>
   is_placeholder env_nocq (CreateDbfsFiles env_nocq ''srv'' ''10.0.0.1'' ''sa'' ''pw'' 16 sample_state)
     ''/dump/srv/b'' \<and>
   is_placeholder env_nocq (CreateDbfsFiles env_nocq ''srv'' ''10.0.0.1'' ''sa'' ''pw'' 16 sample_state)
     ''/dump/srv/b.json'' \<and>
   files (CreateDbfsFiles env_nocq ''srv'' ''10.0.0.1'' ''sa'' ''pw'' 16 sample_state)
     ''/dump/srv/a'' \<noteq> None"
proof -
  let ?s1 = "snd (mkdir env_nocq ''/dump/srv'' sample_state)"
  let ?rows = "[''ColumnName'', ''a'', ''b'']"
  let ?s' = "CreateDbfsFiles env_nocq ''srv'' ''10.0.0.1'' ''sa'' ''pw'' 16 sample_state"
  have run: "status sample_state = Running" by (simp add: sample_state_def)
  have fp: "''/dump/srv'' = CalculateDumpPath env_nocq ''srv''"
    by (simp add: CalculateDumpPath_def env_nocq_def sample_env_def)
  have cs: "c_str ''/dump/srv'' = ''/dump/srv''" by (simp add: c_str_def)
  have m1: "mkdir env_nocq ''/dump/srv'' sample_state
            = (0, sample_state\<lparr>dirs := {''/dump/srv'', ''/dump/''}\<rparr>)"
    by (simp add: mkdir_def env_nocq_def sample_env_def sample_state_def)
  have root: "fst (mkdir env_nocq (c_str ''/dump/srv'') sample_state) = 0"
    by (simp add: cs m1)
  have s1: "?s1 = snd (mkdir env_nocq (c_str ''/dump/srv'') sample_state)"
    by (simp add: cs)
  have cq: "''/dump/srv/customQueries''
            = c_str (''/dump/srv'' @ LINUX_PATH_DELIM env_nocq @ CUSTOM_QUERY_FOLDER_NAME env_nocq)"
    by (simp add: c_str_def env_nocq_def sample_env_def)
  have m2: "mkdir env_nocq ''/dump/srv/customQueries'' ?s1 = (- 1, ?s1\<lparr>errno := 13\<rparr>)"
    by (simp add: m1) (simp add: mkdir_def env_nocq_def sample_env_def sample_state_def)
  have fail: "fst (mkdir env_nocq ''/dump/srv/customQueries'' ?s1) \<noteq> 0"
    by (simp add: m2)
  have env: "diag_on env_nocq" "diag_out env_nocq = stderr_out"
    "strerror env_nocq 13 = ''Permission denied''"
    by (simp_all add: diag_on_def diag_out_def fun_eq_iff env_nocq_def sample_env_def
          sample_strerror_def)
  have st: "stderr_out sample_state = []" by (simp add: sample_state_def)
  have q: "(0, ''ColumnName'' @ [CHR 0x0A] @ ''a'' @ [CHR 0x0A] @ ''b'')
           = ExecuteQuery env_nocq ''SELECT name from sys.system_views where schema_id = 4''
               ''10.0.0.1'' ''sa'' ''pw'' (TYPE_TSV env_nocq)"
    by (simp add: env_nocq_def sample_env_def)
  have rows: "?rows = Split env_nocq
                 (snd (0::int, ''ColumnName'' @ [CHR 0x0A] @ ''a'' @ [CHR 0x0A] @ ''b'')) (CHR 0x0A)"
    by (simp add: env_nocq_def sample_env_def split_rows_def)
  have nf: "\<forall>p. fopen_fault env_nocq p = None \<and> setxattr_fault env_nocq p = None"
    by (simp add: env_nocq_def sample_env_def)
  have rp: "row_path ''/dump/srv'' ?rows (Suc 0) = ''/dump/srv/a''"
    "row_path ''/dump/srv'' ?rows (Suc (Suc 0)) = ''/dump/srv/b''"
    by (simp_all add: row_path_def c_str_def)
  have nd: "\<forall>j. 0 < j \<and> j < length ?rows \<longrightarrow>
              row_path ''/dump/srv'' ?rows j \<notin> dirs sample_state \<and>
              row_path ''/dump/srv'' ?rows j @ ''.json'' \<notin> dirs sample_state"
    by (simp add: sample_state_def row_path_def cs)
  note T = CreateDbfsFiles_custom_dir_fails [OF run fp root s1 cq fail refl q rows refl]
  let ?s2 = "CreateCustomQueriesDir env_nocq ''/dump/srv'' ''srv'' ?s1"
  from T have a: "status ?s2 = Running"
    by blast
  from T have "diag_on env_nocq \<longrightarrow>
                 diag_out env_nocq ?s2 = diag_out env_nocq sample_state @
                   [''mkdir failed for '' @ ''/dump/srv/customQueries'' @ ''- '' @
                    strerror env_nocq (errno (snd (mkdir env_nocq ''/dump/srv/customQueries'' ?s1)))
                    @ [CHR 0x0A]]"
    by blast
  then have b: "stderr_out ?s2 =
                  [''mkdir failed for /dump/srv/customQueries- Permission denied'' @ [CHR 0x0A]]"
    by (simp add: env st m2)
  from T have "fst (0::int, ''ColumnName'' @ [CHR 0x0A] @ ''a'' @ [CHR 0x0A] @ ''b'') = 0 \<and>
       1 < length ?rows \<and>
       (\<forall>p. fopen_fault env_nocq p = None \<and> setxattr_fault env_nocq p = None) \<and>
       (\<forall>j. 0 < j \<and> j < length ?rows \<longrightarrow>
              row_path ''/dump/srv'' ?rows j \<notin> dirs sample_state \<and>
              row_path ''/dump/srv'' ?rows j @ ''.json'' \<notin> dirs sample_state)
       \<longrightarrow> status ?s' = Running \<and>
           (\<forall>j. 0 < j \<and> j < length ?rows \<longrightarrow>
              is_placeholder env_nocq ?s' (row_path ''/dump/srv'' ?rows j) \<and>
              ((16::int) \<le> 16 \<longrightarrow> is_placeholder env_nocq ?s' (row_path ''/dump/srv'' ?rows j @ ''.json'')))"
    by blast
  with nf nd have c: "status ?s' = Running"
    and all: "\<forall>j. 0 < j \<and> j < length ?rows \<longrightarrow>
              is_placeholder env_nocq ?s' (row_path ''/dump/srv'' ?rows j) \<and>
              is_placeholder env_nocq ?s' (row_path ''/dump/srv'' ?rows j @ ''.json'')"
    by simp_all
  from all [rule_format, of "Suc 0"] all [rule_format, of "Suc (Suc 0)"]
  have d: "is_placeholder env_nocq ?s' ''/dump/srv/a''" "is_placeholder env_nocq ?s' ''/dump/srv/b''"
    "is_placeholder env_nocq ?s' ''/dump/srv/b.json''"
    by (simp_all add: rp)
  from d(1) have e: "files ?s' ''/dump/srv/a'' \<noteq> None"
    by (auto simp: is_placeholder_def split: option.splits)
  from a b c d e show ?thesis by blast
qed

subsection \<open>C8: an unknown server\<close>

text \<open>
  C8. For a server name that is not in the registry, \<^verbatim>\<open>GetServerDetails\<close> prints
  \<open>Unknown server\<close> with the name and calls \<^verbatim>\<open>KillSelf\<close>: \<^verbatim>\<open>SIGHUP\<close> is sent, and the process is
  killed where the signal has its default action. The function has no result other than
  its three reference parameters, so no error value goes back to the caller.
\<close>

theorem GetServerDetails_unknown_server:
  assumes absent: "g_ServerInfoMap w servername = None"
    and s': "s' = snd (GetServerDetails w servername refs s)"
  shows "s' = KillSelf w (PrintMsg w (''Unknown server %s'' @ [CHR 0x0A]) [c_str servername] s) \<and>
         signals_sent s' = signals_sent s @ [SIGHUP] \<and>
         (diag_on w \<longrightarrow>
            diag_out w s' = diag_out w s @ [''Unknown server '' @ c_str servername @ [CHR 0x0A]]) \<and>
         (sighup_disposition w = SIG_DFL \<longrightarrow> status s' = Killed SIGHUP) \<and>
         files s' = files s \<and> dirs s' = dirs s"
proof -
  have eq: "s' = KillSelf w (PrintMsg w (''Unknown server %s'' @ [CHR 0x0A]) [c_str servername] s)"
    using absent by (simp add: s' GetServerDetails_def del: StringFormat.simps)
  have fmt: "StringFormat (''Unknown server %s'' @ [CHR 0x0A]) [c_str servername]
             = ''Unknown server '' @ c_str servername @ [CHR 0x0A]"
    by simp
  have "signals_sent s' = signals_sent s @ [SIGHUP]" "files s' = files s" "dirs s' = dirs s"
    unfolding eq by (simp_all add: KillSelf_frame PrintMsg_frame del: StringFormat.simps)
  moreover have "diag_out w s' = diag_out w s @ [''Unknown server '' @ c_str servername @ [CHR 0x0A]]"
    if "diag_on w"
    unfolding eq KillSelf_frame PrintMsg_diag [OF that] fmt ..
  moreover have "status s' = Killed SIGHUP" if "sighup_disposition w = SIG_DFL"
    unfolding eq using that by (simp add: KillSelf_status)
  ultimately show ?thesis using eq by blast
qed

theorem GetServerDetails_unknown_server_witness:
  "signals_sent (snd (GetServerDetails sample_env ''nosuch'' (''h0'', ''u0'', ''p0'') sample_state))
     = [SIGHUP] \<and>
   stderr_out (snd (GetServerDetails sample_env ''nosuch'' (''h0'', ''u0'', ''p0'') sample_state))
     = [''Unknown server nosuch'' @ [CHR 0x0A]] \<and>
   status (snd (GetServerDetails sample_env ''nosuch'' (''h0'', ''u0'', ''p0'') sample_state))
     = Killed SIGHUP"
proof -
  have absent: "g_ServerInfoMap sample_env ''nosuch'' = None"
    by (simp add: sample_env_def)
  have env: "diag_on sample_env" "sighup_disposition sample_env = SIG_DFL"
    "diag_out sample_env = stderr_out" "c_str ''nosuch'' = ''nosuch''"
    "signals_sent sample_state = []" "stderr_out sample_state = []"
    by (simp_all add: diag_on_def diag_out_def fun_eq_iff sample_env_def sample_state_def c_str_def)
  note T = GetServerDetails_unknown_server [OF absent refl, of "(''h0'', ''u0'', ''p0'')" sample_state]
  let ?s' = "snd (GetServerDetails sample_env ''nosuch'' (''h0'', ''u0'', ''p0'') sample_state)"
  from T have "signals_sent ?s' = signals_sent sample_state @ [SIGHUP]" by blast
  moreover from T have "diag_on sample_env \<longrightarrow> diag_out sample_env ?s' =
      diag_out sample_env sample_state @ [''Unknown server '' @ c_str ''nosuch'' @ [CHR 0x0A]]"
    by blast
  moreover from T have "sighup_disposition sample_env = SIG_DFL \<longrightarrow> status ?s' = Killed SIGHUP"
    by blast
  ultimately show ?thesis by (simp add: env)
qed

subsection \<open>C9: the tag query\<close>

text \<open>
  C9. \<^verbatim>\<open>IsDbfsFile\<close> looks at the file at the dump path of its argument. When the attribute
  query is not refused, the result is true exactly when that file exists and carries the
  attribute, whatever the attribute's value; a missing attribute or a missing file gives
  false. When the query is refused for another reason, the result is false.
\<close>

theorem IsDbfsFile_iff_attribute:
  assumes fp: "fp = c_str (CalculateDumpPath w path)"
  shows "(getxattr_fault w fp = None \<longrightarrow>
            fst (IsDbfsFile w path s) =
              (\<exists>f v. files s fp = Some f \<and> xattrs f (g_LocallyGeneratedFiles w) = Some v)) \<and>
         (getxattr_fault w fp \<noteq> None \<longrightarrow> \<not> fst (IsDbfsFile w path s))"
  by (auto simp: fp IsDbfsFile_def getxattr_def Let_def split: option.splits)

theorem IsDbfsFile_iff_attribute_witness:
  "fst (IsDbfsFile sample_env ''srv/a'' tagged_state) \<and>
   \<not> fst (IsDbfsFile sample_env ''srv/real'' tagged_state) \<and>
   \<not> fst (IsDbfsFile sample_env ''srv/missing'' tagged_state) \<and>
   \<not> fst (IsDbfsFile (sample_env\<lparr>getxattr_fault := (\<lambda>p. Some 13)\<rparr>) ''srv/a'' tagged_state)"
proof -
  let ?e = "sample_env\<lparr>getxattr_fault := (\<lambda>p. Some 13)\<rparr>"
  have p: "c_str (CalculateDumpPath sample_env ''srv/a'') = ''/dump/srv/a''"
    "c_str (CalculateDumpPath sample_env ''srv/real'') = ''/dump/srv/real''"
    "c_str (CalculateDumpPath sample_env ''srv/missing'') = ''/dump/srv/missing''"
    "c_str (CalculateDumpPath ?e ''srv/a'') = ''/dump/srv/a''"
    by (simp_all add: CalculateDumpPath_def sample_env_def c_str_def)
  have env: "getxattr_fault sample_env = (\<lambda>p. None)" "getxattr_fault ?e = (\<lambda>p. Some 13)"
    "g_LocallyGeneratedFiles sample_env = ''user.dbfs.local''"
    by (simp_all add: sample_env_def)
  have f: "files tagged_state ''/dump/srv/a''
             = Some \<lparr>content = [], xattrs = [''user.dbfs.local'' \<mapsto> ''xyz'']\<rparr>"
    "files tagged_state ''/dump/srv/real'' = Some \<lparr>content = ''1 row'', xattrs = Map.empty\<rparr>"
    "files tagged_state ''/dump/srv/missing'' = None"
    by (simp_all add: tagged_state_def srv_state_def sample_state_def)
  from IsDbfsFile_iff_attribute [OF refl, of sample_env "''srv/a''" tagged_state]
       IsDbfsFile_iff_attribute [OF refl, of sample_env "''srv/real''" tagged_state]
       IsDbfsFile_iff_attribute [OF refl, of sample_env "''srv/missing''" tagged_state]
       IsDbfsFile_iff_attribute [OF refl, of ?e "''srv/a''" tagged_state]
  show ?thesis
    by (simp add: p env f)
qed

subsection \<open>C10: the output parameters for an unknown server\<close>

text \<open>
  C10. For a server name that is not in the registry, \<^verbatim>\<open>GetServerDetails\<close> leaves its three
  reference parameters with the values they had at the call.
\<close>

theorem GetServerDetails_unknown_keeps_outputs:
  "g_ServerInfoMap w servername = None \<Longrightarrow>
   fst (GetServerDetails w servername (hostname, username, password) s)
     = (hostname, username, password)"
  by (simp add: GetServerDetails_def)

theorem GetServerDetails_unknown_keeps_outputs_witness:
  "fst (GetServerDetails env_handled ''nosuch'' (''h0'', ''u0'', ''p0'') sample_state)
     = (''h0'', ''u0'', ''p0'') \<and>
   status (snd (GetServerDetails env_handled ''nosuch'' (''h0'', ''u0'', ''p0'') sample_state))
     = Running \<and>
   fst (GetServerDetails env_handled ''srv'' (''h0'', ''u0'', ''p0'') sample_state)
     = (''10.0.0.1'', ''sa'', ''pw'')"
proof -
  have absent: "g_ServerInfoMap env_handled ''nosuch'' = None"
    by (simp add: env_handled_def env_a_def sample_env_def)
  have "status (snd (GetServerDetails env_handled ''nosuch'' (''h0'', ''u0'', ''p0'') sample_state))
          = Running"
    by (simp add: GetServerDetails_def absent KillSelf_status PrintMsg_frame del: StringFormat.simps)
       (simp add: env_handled_def env_a_def sample_env_def sample_state_def)
  moreover have "fst (GetServerDetails env_handled ''srv'' (''h0'', ''u0'', ''p0'') sample_state)
     = (''10.0.0.1'', ''sa'', ''pw'')"
    by (simp add: GetServerDetails_def env_handled_def env_a_def sample_env_def)
  ultimately show ?thesis
    using GetServerDetails_unknown_keeps_outputs [OF absent, of "''h0''" "''u0''" "''p0''" sample_state]
    by simp
qed

end
